theory Spec2Isabelle
  imports Complex_Main
begin

section \<open>JavaScript numbers\<close>

text \<open>
  The numbers the provider's JSON carries are finite; they are modelled as reals
  (rounding to binary64 and overflow are not modelled). A division can leave the finite
  numbers: \<open>a / 0\<close> is \<open>Infinity\<close>, \<open>-Infinity\<close> or \<open>NaN\<close>. The zero divisors that
  occur (\<open>1 + c / 100\<close>, a price of \<open>0\<close>) are positive zeros.
\<close>

datatype jsnum = Num real | PosInf | NegInf | NaN

definition js_div :: "real \<Rightarrow> real \<Rightarrow> jsnum" where
  "js_div a b =
     (if b \<noteq> 0 then Num (a / b)
      else if 0 < a then PosInf
      else if a < 0 then NegInf
      else NaN)"

text \<open>\<^verbatim>\<open>x || 0\<close>: the falsy numbers are \<open>NaN\<close> and zero.\<close>

definition js_or_zero :: "jsnum \<Rightarrow> jsnum" where
  "js_or_zero x =
     (case x of
        Num r \<Rightarrow> if r = 0 then Num 0 else Num r
      | NaN \<Rightarrow> Num 0
      | PosInf \<Rightarrow> PosInf
      | NegInf \<Rightarrow> NegInf)"


text \<open>
  \<^verbatim>\<open>JSON.parse(JSON.stringify(x))\<close> on a number or \<^verbatim>\<open>null\<close>: a non-finite number is
  written as \<^verbatim>\<open>null\<close>.
\<close>

definition json_number :: "jsnum option \<Rightarrow> jsnum option" where
  "json_number x =
     (case x of
        None \<Rightarrow> None
      | Some (Num r) \<Rightarrow> Some (Num r)
      | Some _ \<Rightarrow> None)"

section \<open>Data model\<close>

text \<open>\<^verbatim>\<open>interface TickerItem\<close>; the field \<^verbatim>\<open>id\<close> is \<open>item_id\<close> here.\<close>

record TickerItem =
  item_id :: string
  label :: string
  currentPrice :: "jsnum option"
  priceChange24h :: "jsnum option"
  currencySymbol :: string

text \<open>\<^verbatim>\<open>interface CachedData\<close>.\<close>

record CachedData =
  items :: "TickerItem list"
  lastUpdated :: int

text \<open>
  The text under \<^verbatim>\<open>CACHE_KEY\<close> in \<^verbatim>\<open>localStorage\<close>: no entry (or the empty string),
  a text that \<^verbatim>\<open>JSON.parse\<close> or the field access rejects, or a record.
\<close>

datatype cache_slot = NoEntry | Unparsable | Entry CachedData

text \<open>The text under \<^verbatim>\<open>RATE_LIMIT_KEY\<close>: \<^verbatim>\<open>{ timestamp, count }\<close>.\<close>

record RateLimit =
  timestamp :: int
  count :: int

datatype rate_slot = NoRate | BadRate | Rate RateLimit

text \<open>One element of \<^verbatim>\<open>response.data\<close>, with the fields the hook reads.\<close>

record coin =
  coin_id :: string
  current_price :: real
  price_change_percentage_24h :: real

text \<open>
  A resolved axios response: its status, its \<^verbatim>\<open>retry-after\<close> header (absent, or a
  number of seconds) and its data.
\<close>

record response =
  status :: int
  retry_after :: "int option"
  data :: "coin list"

text \<open>
  What can be thrown: an axios rejection with \<^verbatim>\<open>error.response?.status\<close>, the
  \<^verbatim>\<open>SyntaxError\<close> of \<^verbatim>\<open>JSON.parse\<close>, and the hook's own
  \<^verbatim>\<open>Error('Incomplete data received from API')\<close>.
\<close>

datatype js_error = AxiosError "int option" | SyntaxError | IncompleteData

datatype axios_result = Resolved response | Rejected "int option"

text \<open>
  What the environment does during one invocation of \<^verbatim>\<open>fetchWithRetry\<close>: how the
  request ends, how long it takes, and what \<^verbatim>\<open>Math.random()\<close> returns if asked.
\<close>

record attempt =
  outcome :: axios_result
  latency :: int
  rnd :: real

text \<open>
  The observable actions, by call site: the \<^verbatim>\<open>setTimeout\<close> delays requested and the
  requests issued (with their \<^verbatim>\<open>ids\<close> parameter).
\<close>

datatype event =
    RateLimitWait int
  | SafetyDelay int
  | Cooldown int
  | BackoffWait int
  | BackoffWaitFrac real
  | Request string

text \<open>
  The state: the hook's \<^verbatim>\<open>useState\<close> cells (\<open>tickerItems\<close>, \<open>isLoading\<close>, \<open>error\<close>,
  \<open>lastUpdatedState\<close> for \<^verbatim>\<open>lastUpdated\<close>), the \<^verbatim>\<open>isMounted\<close> ref, the two
  \<^verbatim>\<open>localStorage\<close> slots, the clock read by \<^verbatim>\<open>Date.now()\<close> and the trace of actions.
  A setter is a write to its cell.
\<close>

record world =
  tickerItems :: "TickerItem list"
  isLoading :: bool
  error :: "string option"
  lastUpdatedState :: "int option"
  isMounted :: bool
  cache :: cache_slot
  rateLimit :: rate_slot
  clock :: int
  trace :: "event list"

text \<open>
  \<^verbatim>\<open>await new Promise(resolve => setTimeout(resolve, d))\<close>: the delay is recorded as
  requested and the timer fires on time (at once when the delay is negative). Synchronous
  code takes no time: the clock moves at awaits only.
\<close>

definition wait :: "(int \<Rightarrow> event) \<Rightarrow> int \<Rightarrow> world \<Rightarrow> world" where
  "wait site d w = w\<lparr>clock := clock w + max 0 d, trace := trace w @ [site d]\<rparr>"

section \<open>useBtcPrice.ts\<close>

definition CACHE_DURATION :: int where "CACHE_DURATION = 5 * 60 * 1000"
definition REFRESH_INTERVAL :: int where "REFRESH_INTERVAL = 5 * 60 * 1000"
definition RATE_LIMIT_WINDOW :: int where "RATE_LIMIT_WINDOW = 60 * 1000"
definition MAX_RETRIES :: int where "MAX_RETRIES = 1"
definition BASE_BACKOFF :: int where "BASE_BACKOFF = 3000"

subsection \<open>fetchWithRetry\<close>

text \<open>
  Lines 39 to 58: the rate-limit check at the head of the \<^verbatim>\<open>try\<close> block, with \<open>now\<close>
  read at line 34. \<^verbatim>\<open>JSON.parse\<close> of an unparsable entry throws.
\<close>

definition rateLimitCheck :: "world \<Rightarrow> js_error + world" where
  "rateLimitCheck w =
     (let now = clock w in
      case rateLimit w of
        Rate r \<Rightarrow>
          if now - timestamp r > RATE_LIMIT_WINDOW
          then Inr (w\<lparr>rateLimit := Rate \<lparr>timestamp = now, count = 1\<rparr>\<rparr>)
          else if count r \<ge> 5
          then
            (let timeToWait = (timestamp r + RATE_LIMIT_WINDOW) - now;
                 w1 = wait RateLimitWait (timeToWait + 1000) w
             in Inr (w1\<lparr>rateLimit := Rate \<lparr>timestamp = clock w1, count = 1\<rparr>\<rparr>))
          else Inr (w\<lparr>rateLimit := Rate \<lparr>timestamp = timestamp r, count = count r + 1\<rparr>\<rparr>)
      | BadRate \<Rightarrow> Inl SyntaxError
      | NoRate \<Rightarrow> Inr (w\<lparr>rateLimit := Rate \<lparr>timestamp = now, count = 1\<rparr>\<rparr>))"

text \<open>The axios call: the request is issued and ends as the environment says.\<close>

definition axiosCall :: "string \<Rightarrow> attempt \<Rightarrow> world \<Rightarrow> (js_error + response) \<times> world" where
  "axiosCall ids a w =
     (let w1 = w\<lparr>clock := clock w + max 0 (latency a), trace := trace w @ [Request ids]\<rparr>
      in case outcome a of
           Resolved r \<Rightarrow> (Inr r, w1)
         | Rejected s \<Rightarrow> (Inl (AxiosError s), w1))"

text \<open>Lines 37 to 78: the \<^verbatim>\<open>try\<close> block of one invocation.\<close>

definition tryRequest :: "string \<Rightarrow> attempt \<Rightarrow> world \<Rightarrow> (js_error + response) \<times> world" where
  "tryRequest ids a w =
     (case rateLimitCheck w of
        Inl e \<Rightarrow> (Inl e, w)
      | Inr w1 \<Rightarrow> axiosCall ids a (wait SafetyDelay 500 w1))"

text \<open>Lines 83 to 88: the extra wait and the counter reset after a 429.\<close>

definition onRateLimited :: "js_error \<Rightarrow> world \<Rightarrow> world" where
  "onRateLimited e w =
     (if e = AxiosError (Some 429)
      then (let w1 = wait Cooldown 30000 w
            in w1\<lparr>rateLimit := Rate \<lparr>timestamp = clock w1, count = 0\<rparr>\<rparr>)
      else w)"

text \<open>
  \<^verbatim>\<open>fetchWithRetry(url, options, retries, backoff)\<close>. Each invocation takes the next
  entry of the environment's script; \<open>None\<close> means that the script ended before the
  function returned. The result carries the state and the rest of the script.
\<close>

fun fetchWithRetry ::
  "string \<Rightarrow> attempt list \<Rightarrow> int \<Rightarrow> int \<Rightarrow> world
     \<Rightarrow> ((js_error + response) \<times> world \<times> attempt list) option" where
  "fetchWithRetry ids [] retries backoff w = None"
| "fetchWithRetry ids (a # script) retries backoff w =
     (case tryRequest ids a w of
        (Inr r, w1) \<Rightarrow> Some (Inr r, w1, script)
      | (Inl e, w1) \<Rightarrow>
          (let w2 = onRateLimited e w1 in
           if retries \<le> 0 then Some (Inl e, w2, script)
           else
             (let jitter = \<lfloor>rnd a * 1000\<rfloor>;
                  delay = backoff + jitter;
                  w3 = wait BackoffWait delay w2
              in fetchWithRetry ids script (retries - 1) (min (backoff * 2) 30000) w3)))"

subsection \<open>The hook\<close>

text \<open>The currency symbols that are not ASCII, as UTF-8 bytes.\<close>

definition euroSign :: string where
  "euroSign = [CHR 0xE2, CHR 0x82, CHR 0xAC]"

definition xiSign :: string where
  "xiSign = [CHR 0xCE, CHR 0x9E]"

text \<open>Lines 106 to 111: the initial value of \<^verbatim>\<open>tickerItems\<close>.\<close>

definition initialItems :: "TickerItem list" where
  "initialItems =
     [\<lparr>item_id = ''btc-usd'', label = ''BTC/USD'', currentPrice = None,
       priceChange24h = None, currencySymbol = ''$''\<rparr>,
      \<lparr>item_id = ''btc-eur'', label = ''BTC/EUR'', currentPrice = None,
       priceChange24h = None, currencySymbol = euroSign\<rparr>,
      \<lparr>item_id = ''btc-eth'', label = ''BTC/ETH'', currentPrice = None,
       priceChange24h = None, currencySymbol = xiSign\<rparr>,
      \<lparr>item_id = ''gold-usd'', label = ''Gold (oz)/USD'', currentPrice = None,
       priceChange24h = None, currencySymbol = ''$''\<rparr>]"

text \<open>The hook at its first render, over a given storage and clock.\<close>

definition initialWorld :: "cache_slot \<Rightarrow> rate_slot \<Rightarrow> int \<Rightarrow> world" where
  "initialWorld c r t =
     \<lparr>tickerItems = initialItems, isLoading = True, error = None, lastUpdatedState = None,
      isMounted = True, cache = c, rateLimit = r, clock = t, trace = []\<rparr>"

definition getCachedData :: "world \<Rightarrow> CachedData option" where
  "getCachedData w =
     (case cache w of
        NoEntry \<Rightarrow> None
      | Unparsable \<Rightarrow> None
      | Entry parsed \<Rightarrow>
          if clock w - lastUpdated parsed < CACHE_DURATION then Some parsed else None)"

text \<open>What \<^verbatim>\<open>JSON.stringify\<close> keeps of an item.\<close>

definition json_item :: "TickerItem \<Rightarrow> TickerItem" where
  "json_item item =
     item\<lparr>currentPrice := json_number (currentPrice item),
          priceChange24h := json_number (priceChange24h item)\<rparr>"

definition saveToCache :: "TickerItem list \<Rightarrow> world \<Rightarrow> world" where
  "saveToCache its w =
     w\<lparr>cache := Entry \<lparr>items = map json_item its, lastUpdated = clock w\<rparr>\<rparr>"

text \<open>\<^verbatim>\<open>{ ...item, ...updatedItem }\<close>: every field of \<open>updatedItem\<close> replaces the item's.\<close>

definition spread :: "TickerItem \<Rightarrow> TickerItem \<Rightarrow> TickerItem" where
  "spread item updatedItem =
     item\<lparr>item_id := item_id updatedItem, label := label updatedItem,
          currentPrice := currentPrice updatedItem,
          priceChange24h := priceChange24h updatedItem,
          currencySymbol := currencySymbol updatedItem\<rparr>"

text \<open>The updater that \<^verbatim>\<open>updateTickerItems\<close> hands to \<^verbatim>\<open>setTickerItems\<close>.\<close>

definition mergeItems :: "TickerItem list \<Rightarrow> TickerItem list \<Rightarrow> TickerItem list" where
  "mergeItems newItems prevItems =
     map (\<lambda>item.
            case find (\<lambda>newItem. item_id newItem = item_id item) newItems of
              Some updatedItem \<Rightarrow> spread item updatedItem
            | None \<Rightarrow> item)
         prevItems"

definition updateTickerItems :: "TickerItem list \<Rightarrow> world \<Rightarrow> world" where
  "updateTickerItems newItems w = w\<lparr>tickerItems := mergeItems newItems (tickerItems w)\<rparr>"

text \<open>Lines 211 to 214: the \<^verbatim>\<open>reduce\<close> that keys the coins by id (a later coin wins).\<close>

definition reduceById :: "coin list \<Rightarrow> (string \<rightharpoonup> coin)" where
  "reduceById coins = foldl (\<lambda>acc c. acc(coin_id c \<mapsto> c)) Map.empty coins"

text \<open>Lines 225 to 227.\<close>

definition btcEthPrice :: "coin \<Rightarrow> coin \<Rightarrow> jsnum" where
  "btcEthPrice btcData ethData = js_div (current_price btcData) (current_price ethData)"

definition btcEthChange24h :: "coin \<Rightarrow> coin \<Rightarrow> jsnum" where
  "btcEthChange24h btcData ethData =
     js_or_zero
       (js_div (price_change_percentage_24h btcData - price_change_percentage_24h ethData)
               (1 + price_change_percentage_24h ethData / 100))"

text \<open>Lines 211 to 262: from \<^verbatim>\<open>response.data\<close> to \<^verbatim>\<open>updatedItems\<close>, or the throw.\<close>

definition updatedItems :: "coin list \<Rightarrow> js_error + TickerItem list" where
  "updatedItems coins =
     (let byId = reduceById coins;
          goldLookup = (case byId ''pax-gold'' of Some g \<Rightarrow> Some g | None \<Rightarrow> byId ''gold'')
      in case (byId ''bitcoin'', byId ''ethereum'', goldLookup) of
           (Some btcData, Some ethData, Some goldData) \<Rightarrow>
             (let goldPricePerOz = current_price goldData in
              Inr [\<lparr>item_id = ''btc-usd'', label = ''BTC/USD'',
                    currentPrice = Some (Num (current_price btcData)),
                    priceChange24h = Some (Num (price_change_percentage_24h btcData)),
                    currencySymbol = ''$''\<rparr>,
                   \<lparr>item_id = ''btc-eur'', label = ''BTC/EUR'',
                    currentPrice = Some (Num (current_price btcData * 0.9)),
                    priceChange24h = Some (Num (price_change_percentage_24h btcData)),
                    currencySymbol = euroSign\<rparr>,
                   \<lparr>item_id = ''btc-eth'', label = ''BTC/ETH'',
                    currentPrice = Some (btcEthPrice btcData ethData),
                    priceChange24h = Some (btcEthChange24h btcData ethData),
                    currencySymbol = xiSign\<rparr>,
                   \<lparr>item_id = ''gold-usd'', label = ''Gold (oz)/USD'',
                    currentPrice = Some (Num goldPricePerOz),
                    priceChange24h = Some (Num (price_change_percentage_24h goldData)),
                    currencySymbol = ''$''\<rparr>])
         | _ \<Rightarrow> Inl IncompleteData)"

text \<open>
  \<^verbatim>\<open>fetchBtcPrice\<close> is split at its \<^verbatim>\<open>await\<close>: the synchronous start, the awaited
  requests, and the rest with its \<^verbatim>\<open>catch\<close> and \<^verbatim>\<open>finally\<close>.
\<close>

datatype phase = Returned world | Awaiting world

text \<open>Lines 276 to 280.\<close>

definition finallyBlock :: "world \<Rightarrow> world" where
  "finallyBlock w = (if isMounted w then w\<lparr>isLoading := False\<rparr> else w)"

text \<open>
  Lines 155 to 182. The closure reads the \<^verbatim>\<open>isLoading\<close> it captured when the callback
  was created, which is the argument \<open>isLoadingSeen\<close>.
\<close>

definition fetchBtcPrice_start :: "bool \<Rightarrow> world \<Rightarrow> phase" where
  "fetchBtcPrice_start isLoadingSeen w =
     (if \<not> isMounted w then Returned w
      else if isLoadingSeen then Returned w
      else
        (let now = clock w in
         case getCachedData w of
           Some cachedData \<Rightarrow>
             (let w1 = (updateTickerItems (items cachedData) w)
                         \<lparr>lastUpdatedState := Some (lastUpdated cachedData),
                          isLoading := False\<rparr>
              in if now - lastUpdated cachedData < CACHE_DURATION
                 then Returned (finallyBlock w1)
                 else Awaiting (w1\<lparr>isLoading := True, error := None\<rparr>))
         | None \<Rightarrow> Awaiting (w\<lparr>isLoading := True, error := None\<rparr>)))"

text \<open>Lines 185 to 209: the request for pax-gold and, if it fails, the one for gold.\<close>

definition fetchResponse ::
  "attempt list \<Rightarrow> world \<Rightarrow> ((js_error + response) \<times> world \<times> attempt list) option" where
  "fetchResponse script w =
     (case fetchWithRetry ''bitcoin,ethereum,pax-gold'' script MAX_RETRIES BASE_BACKOFF w of
        None \<Rightarrow> None
      | Some (Inr r, w1, rest) \<Rightarrow> Some (Inr r, w1, rest)
      | Some (Inl e, w1, rest) \<Rightarrow>
          fetchWithRetry ''bitcoin,ethereum,gold'' rest MAX_RETRIES BASE_BACKOFF w1)"

text \<open>Lines 268 to 275: the \<^verbatim>\<open>catch\<close> block.\<close>

definition catchBlock :: "world \<Rightarrow> world" where
  "catchBlock w =
     (let w1 = w\<lparr>error := Some ''Failed to fetch live data. Using cached data if available.''\<rparr>
      in case getCachedData w1 of
           Some cachedData \<Rightarrow>
             (updateTickerItems (items cachedData) w1)
               \<lparr>lastUpdatedState := Some (lastUpdated cachedData)\<rparr>
         | None \<Rightarrow> w1)"

text \<open>Lines 211 to 280: what runs once the awaited requests have ended.\<close>

definition fetchBtcPrice_finish :: "js_error + response \<Rightarrow> world \<Rightarrow> world" where
  "fetchBtcPrice_finish res w =
     finallyBlock
       (case res of
          Inl e \<Rightarrow> catchBlock w
        | Inr r \<Rightarrow>
            (case updatedItems (data r) of
               Inl e \<Rightarrow> catchBlock w
             | Inr its \<Rightarrow>
                 saveToCache its
                   ((updateTickerItems its w)\<lparr>lastUpdatedState := Some (clock w)\<rparr>)))"

text \<open>Lines 303 to 307: the cleanup of the effect.\<close>

definition cleanup :: "world \<Rightarrow> world" where
  "cleanup w = w\<lparr>isMounted := False\<rparr>"

text \<open>
  One call of \<^verbatim>\<open>fetchBtcPrice\<close>; \<open>unmounts\<close> says whether the cleanup runs while the
  requests are awaited.
\<close>

definition fetchBtcPrice ::
  "bool \<Rightarrow> bool \<Rightarrow> attempt list \<Rightarrow> world \<Rightarrow> (world \<times> attempt list) option" where
  "fetchBtcPrice isLoadingSeen unmounts script w =
     (case fetchBtcPrice_start isLoadingSeen w of
        Returned w1 \<Rightarrow> Some (w1, script)
      | Awaiting w1 \<Rightarrow>
          (case fetchResponse script w1 of
             None \<Rightarrow> None
           | Some (res, w2, rest) \<Rightarrow>
               Some (fetchBtcPrice_finish res (if unmounts then cleanup w2 else w2), rest)))"

text \<open>
  A refresh cycle as the environment drives it: the time since the last one, what the
  closure sees, whether the hook is unmounted in flight, and the script of the requests.
\<close>

record cycle =
  idle :: int
  seesLoading :: bool
  unmountsInFlight :: bool
  requests :: "attempt list"

definition runCycle :: "cycle \<Rightarrow> world \<Rightarrow> world option" where
  "runCycle c w =
     map_option fst
       (fetchBtcPrice (seesLoading c) (unmountsInFlight c) (requests c)
          (w\<lparr>clock := clock w + max 0 (idle c)\<rparr>))"

fun runCycles :: "cycle list \<Rightarrow> world \<Rightarrow> world option" where
  "runCycles [] w = Some w"
| "runCycles (c # cs) w =
     (case runCycle c w of None \<Rightarrow> None | Some w1 \<Rightarrow> runCycles cs w1)"

section \<open>The other revision of the hook (unnamed/part_000)\<close>

text \<open>
  The definitions of this revision carry the suffix \<open>_p0\<close>. \<^verbatim>\<open>saveToCache\<close>,
  \<^verbatim>\<open>updateTickerItems\<close>, the \<^verbatim>\<open>catch\<close> and \<^verbatim>\<open>finally\<close> blocks and the cleanup have the
  same text in both revisions, up to the constants they use.
\<close>

definition CACHE_DURATION_p0 :: int where "CACHE_DURATION_p0 = 2 * 60 * 1000"
definition REFRESH_INTERVAL_p0 :: int where "REFRESH_INTERVAL_p0 = 2 * 60 * 1000"
definition MAX_RETRIES_p0 :: int where "MAX_RETRIES_p0 = 2"
definition BASE_BACKOFF_p0 :: int where "BASE_BACKOFF_p0 = 2000"

subsection \<open>fetchWithRetry\<close>

text \<open>Lines 36 to 55: the rate-limit check, outside the \<^verbatim>\<open>try\<close> block.\<close>

definition rateLimitCheck_p0 :: "world \<Rightarrow> js_error + world" where
  "rateLimitCheck_p0 w =
     (let now = clock w in
      case rateLimit w of
        Rate r \<Rightarrow>
          if now - timestamp r > RATE_LIMIT_WINDOW
          then Inr (w\<lparr>rateLimit := Rate \<lparr>timestamp = now, count = 1\<rparr>\<rparr>)
          else if count r \<ge> 10
          then
            (let timeToWait = (timestamp r + RATE_LIMIT_WINDOW) - now;
                 w1 = wait RateLimitWait timeToWait w
             in Inr (w1\<lparr>rateLimit := Rate \<lparr>timestamp = clock w1, count = 1\<rparr>\<rparr>))
          else Inr (w\<lparr>rateLimit := Rate \<lparr>timestamp = timestamp r, count = count r + 1\<rparr>\<rparr>)
      | BadRate \<Rightarrow> Inl SyntaxError
      | NoRate \<Rightarrow> Inr (w\<lparr>rateLimit := Rate \<lparr>timestamp = now, count = 1\<rparr>\<rparr>))"

text \<open>
  A \<^verbatim>\<open>setTimeout\<close> with a fractional delay (the jitter is not rounded here): the delay
  is recorded as requested, and the timer counts whole milliseconds.
\<close>

definition waitFrac :: "real \<Rightarrow> world \<Rightarrow> world" where
  "waitFrac d w = w\<lparr>clock := clock w + max 0 \<lfloor>d\<rfloor>, trace := trace w @ [BackoffWaitFrac d]\<rparr>"

text \<open>
  Line 69: \<^verbatim>\<open>parseInt(response.headers['retry-after'] || '5', 10) * 1000\<close>.
\<close>

definition retryAfter_p0 :: "response \<Rightarrow> int" where
  "retryAfter_p0 r = (case retry_after r of None \<Rightarrow> 5 | Some s \<Rightarrow> s) * 1000"

text \<open>
  \<^verbatim>\<open>fetchWithRetry\<close>. A throw of the rate-limit check is outside the \<^verbatim>\<open>try\<close> and
  rejects the call. The recursive calls are returned without \<^verbatim>\<open>await\<close>, so their
  rejections are not caught here.
\<close>

fun fetchWithRetry_p0 ::
  "string \<Rightarrow> attempt list \<Rightarrow> int \<Rightarrow> int \<Rightarrow> world
     \<Rightarrow> ((js_error + response) \<times> world \<times> attempt list) option" where
  "fetchWithRetry_p0 ids [] retries backoff w = None"
| "fetchWithRetry_p0 ids (a # script) retries backoff w =
     (case rateLimitCheck_p0 w of
        Inl e \<Rightarrow> Some (Inl e, w, script)
      | Inr w1 \<Rightarrow>
          (case axiosCall ids a w1 of
             (Inr r, w2) \<Rightarrow>
               if status r = 429
               then fetchWithRetry_p0 ids script retries (backoff * 2)
                      (wait Cooldown (retryAfter_p0 r) w2)
               else Some (Inr r, w2, script)
           | (Inl e, w2) \<Rightarrow>
               if retries > 0
               then
                 (let jitter = rnd a * 1000;
                      delay = real_of_int backoff + jitter
                  in fetchWithRetry_p0 ids script (retries - 1) (min (backoff * 2) 30000)
                       (waitFrac delay w2))
               else Some (Inl e, w2, script)))"

subsection \<open>The hook\<close>

text \<open>Lines 91 to 96: the initial value of \<^verbatim>\<open>tickerItems\<close>.\<close>

definition initialItems_p0 :: "TickerItem list" where
  "initialItems_p0 =
     [\<lparr>item_id = ''btc-usd'', label = ''BTC/USD'', currentPrice = None,
       priceChange24h = None, currencySymbol = ''$''\<rparr>,
      \<lparr>item_id = ''btc-eur'', label = ''BTC/EUR'', currentPrice = None,
       priceChange24h = None, currencySymbol = euroSign\<rparr>,
      \<lparr>item_id = ''btc-eth'', label = ''BTC/ETH'', currentPrice = None,
       priceChange24h = None, currencySymbol = xiSign\<rparr>,
      \<lparr>item_id = ''btc-gold'', label = ''Gold (oz)'', currentPrice = None,
       priceChange24h = None, currencySymbol = ''oz''\<rparr>]"

definition initialWorld_p0 :: "cache_slot \<Rightarrow> rate_slot \<Rightarrow> int \<Rightarrow> world" where
  "initialWorld_p0 c r t =
     \<lparr>tickerItems = initialItems_p0, isLoading = True, error = None,
      lastUpdatedState = None, isMounted = True, cache = c, rateLimit = r, clock = t,
      trace = []\<rparr>"

definition getCachedData_p0 :: "world \<Rightarrow> CachedData option" where
  "getCachedData_p0 w =
     (case cache w of
        NoEntry \<Rightarrow> None
      | Unparsable \<Rightarrow> None
      | Entry parsed \<Rightarrow>
          if clock w - lastUpdated parsed < CACHE_DURATION_p0 then Some parsed else None)"

text \<open>Lines 170 to 219: from \<^verbatim>\<open>response.data\<close> to \<^verbatim>\<open>updatedItems\<close>, or the throw.\<close>

definition updatedItems_p0 :: "coin list \<Rightarrow> js_error + TickerItem list" where
  "updatedItems_p0 coins =
     (let byId = reduceById coins
      in case (byId ''bitcoin'', byId ''ethereum'', byId ''pax-gold'') of
           (Some btcData, Some ethData, Some goldData) \<Rightarrow>
             (let goldPricePerOz = current_price goldData * 31.1 in
              Inr [\<lparr>item_id = ''btc-usd'', label = ''BTC/USD'',
                    currentPrice = Some (Num (current_price btcData)),
                    priceChange24h = Some (Num (price_change_percentage_24h btcData)),
                    currencySymbol = ''$''\<rparr>,
                   \<lparr>item_id = ''btc-eur'', label = ''BTC/EUR'',
                    currentPrice = Some (Num (current_price btcData * 0.9)),
                    priceChange24h = Some (Num (price_change_percentage_24h btcData)),
                    currencySymbol = euroSign\<rparr>,
                   \<lparr>item_id = ''btc-eth'', label = ''BTC/ETH'',
                    currentPrice = Some (btcEthPrice btcData ethData),
                    priceChange24h = Some (btcEthChange24h btcData ethData),
                    currencySymbol = xiSign\<rparr>,
                   \<lparr>item_id = ''gold-usd'', label = ''Gold (oz)/USD'',
                    currentPrice = Some (Num goldPricePerOz),
                    priceChange24h = Some (Num (price_change_percentage_24h goldData)),
                    currencySymbol = ''$''\<rparr>])
         | _ \<Rightarrow> Inl IncompleteData)"

text \<open>Lines 140 to 157.\<close>

definition fetchBtcPrice_start_p0 :: "bool \<Rightarrow> world \<Rightarrow> phase" where
  "fetchBtcPrice_start_p0 isLoadingSeen w =
     (if \<not> isMounted w then Returned w
      else if isLoadingSeen then Returned w
      else
        (case getCachedData_p0 w of
           Some cachedData \<Rightarrow>
             (let w1 = (updateTickerItems (items cachedData) w)
                         \<lparr>lastUpdatedState := Some (lastUpdated cachedData),
                          isLoading := False\<rparr>
              in if clock w - lastUpdated cachedData < 60000
                 then Returned (finallyBlock w1)
                 else Awaiting (w1\<lparr>isLoading := True, error := None\<rparr>))
         | None \<Rightarrow> Awaiting (w\<lparr>isLoading := True, error := None\<rparr>)))"

text \<open>Lines 159 to 168: the one request.\<close>

definition fetchResponse_p0 ::
  "attempt list \<Rightarrow> world \<Rightarrow> ((js_error + response) \<times> world \<times> attempt list) option" where
  "fetchResponse_p0 script w =
     fetchWithRetry_p0 ''bitcoin,ethereum,pax-gold'' script MAX_RETRIES_p0 BASE_BACKOFF_p0 w"

text \<open>Lines 225 to 232: the \<^verbatim>\<open>catch\<close> block.\<close>

definition catchBlock_p0 :: "world \<Rightarrow> world" where
  "catchBlock_p0 w =
     (let w1 = w\<lparr>error := Some ''Failed to fetch live data. Using cached data if available.''\<rparr>
      in case getCachedData_p0 w1 of
           Some cachedData \<Rightarrow>
             (updateTickerItems (items cachedData) w1)
               \<lparr>lastUpdatedState := Some (lastUpdated cachedData)\<rparr>
         | None \<Rightarrow> w1)"

text \<open>Lines 170 to 237: what runs once the awaited request has ended.\<close>

definition fetchBtcPrice_finish_p0 :: "js_error + response \<Rightarrow> world \<Rightarrow> world" where
  "fetchBtcPrice_finish_p0 res w =
     finallyBlock
       (case res of
          Inl e \<Rightarrow> catchBlock_p0 w
        | Inr r \<Rightarrow>
            (case updatedItems_p0 (data r) of
               Inl e \<Rightarrow> catchBlock_p0 w
             | Inr its \<Rightarrow>
                 saveToCache its
                   ((updateTickerItems its w)\<lparr>lastUpdatedState := Some (clock w)\<rparr>)))"

definition fetchBtcPrice_p0 ::
  "bool \<Rightarrow> bool \<Rightarrow> attempt list \<Rightarrow> world \<Rightarrow> (world \<times> attempt list) option" where
  "fetchBtcPrice_p0 isLoadingSeen unmounts script w =
     (case fetchBtcPrice_start_p0 isLoadingSeen w of
        Returned w1 \<Rightarrow> Some (w1, script)
      | Awaiting w1 \<Rightarrow>
          (case fetchResponse_p0 script w1 of
             None \<Rightarrow> None
           | Some (res, w2, rest) \<Rightarrow>
               Some (fetchBtcPrice_finish_p0 res (if unmounts then cleanup w2 else w2), rest)))"

definition runCycle_p0 :: "cycle \<Rightarrow> world \<Rightarrow> world option" where
  "runCycle_p0 c w =
     map_option fst
       (fetchBtcPrice_p0 (seesLoading c) (unmountsInFlight c) (requests c)
          (w\<lparr>clock := clock w + max 0 (idle c)\<rparr>))"

fun runCycles_p0 :: "cycle list \<Rightarrow> world \<Rightarrow> world option" where
  "runCycles_p0 [] w = Some w"
| "runCycles_p0 (c # cs) w =
     (case runCycle_p0 c w of None \<Rightarrow> None | Some w1 \<Rightarrow> runCycles_p0 cs w1)"

section \<open>Notions used in the statements\<close>

text \<open>The item of a sequence that has a given id (the first one).\<close>

definition itemById :: "string \<Rightarrow> TickerItem list \<Rightarrow> TickerItem option" where
  "itemById k its = find (\<lambda>item. item_id item = k) its"

text \<open>The part of the state that \<^verbatim>\<open>fetchWithRetry\<close> has no access to.\<close>

definition hookView ::
  "world \<Rightarrow> TickerItem list \<times> bool \<times> string option \<times> int option \<times> bool \<times> cache_slot" where
  "hookView w = (tickerItems w, isLoading w, error w, lastUpdatedState w, isMounted w, cache w)"



text \<open>
  The gold item of the initial sequence in part_000, and a cache slot that holds no item
  of that id.
\<close>

definition goldPlaceholder :: TickerItem where
  "goldPlaceholder = \<lparr>item_id = ''btc-gold'', label = ''Gold (oz)'', currentPrice = None,
       priceChange24h = None, currencySymbol = ''oz''\<rparr>"

definition noBtcGold :: "cache_slot \<Rightarrow> bool" where
  "noBtcGold c = (case c of Entry cd \<Rightarrow> itemById ''btc-gold'' (items cd) = None | _ \<Rightarrow> True)"

definition goldKept :: "world \<Rightarrow> bool" where
  "goldKept w \<longleftrightarrow>
     itemById ''btc-gold'' (tickerItems w) = Some goldPlaceholder \<and> noBtcGold (cache w)"

text \<open>The delays that a trace records at the backoff call site, in order.\<close>

fun backoffWaits :: "event list \<Rightarrow> int list" where
  "backoffWaits [] = []"
| "backoffWaits (BackoffWait d # evs) = d # backoffWaits evs"
| "backoffWaits (e # evs) = backoffWaits evs"

fun backoffWaitsFrac :: "event list \<Rightarrow> real list" where
  "backoffWaitsFrac [] = []"
| "backoffWaitsFrac (BackoffWaitFrac d # evs) = d # backoffWaitsFrac evs"
| "backoffWaitsFrac (e # evs) = backoffWaitsFrac evs"

text \<open>
  An attempt whose request is rejected with something else than a 429 response, and one
  in which \<^verbatim>\<open>Math.random()\<close> keeps to its range.
\<close>

definition failsPlainly :: "attempt \<Rightarrow> bool" where
  "failsPlainly a = (case outcome a of Rejected s \<Rightarrow> s \<noteq> Some 429 | Resolved r \<Rightarrow> False)"

definition randomInRange :: "attempt \<Rightarrow> bool" where
  "randomInRange a \<longleftrightarrow> 0 \<le> rnd a \<and> rnd a < 1"

text \<open>An attempt whose request resolves with status 429.\<close>

definition resolves429 :: "attempt \<Rightarrow> bool" where
  "resolves429 a = (case outcome a of Resolved r \<Rightarrow> status r = 429 | Rejected s \<Rightarrow> False)"


section \<open>Sample inputs\<close>

definition sampleCoins :: "coin list" where
  "sampleCoins =
     [\<lparr>coin_id = ''bitcoin'', current_price = 98000, price_change_percentage_24h = 1.2\<rparr>,
      \<lparr>coin_id = ''ethereum'', current_price = 19, price_change_percentage_24h = 0.5\<rparr>,
      \<lparr>coin_id = ''pax-gold'', current_price = 2650, price_change_percentage_24h = 0.1\<rparr>]"

definition okAttempt :: attempt where
  "okAttempt =
     \<lparr>outcome = Resolved \<lparr>status = 200, retry_after = None, data = sampleCoins\<rparr>,
      latency = 120, rnd = 0.25\<rparr>"

definition netFail :: attempt where
  "netFail = \<lparr>outcome = Rejected None, latency = 15000, rnd = 0.25\<rparr>"

definition tooMany :: attempt where
  "tooMany = \<lparr>outcome = Rejected (Some 429), latency = 50, rnd = 0.5\<rparr>"

text \<open>A successful refresh, then one five minutes later whose four requests all fail.\<close>

definition sampleCycles :: "cycle list" where
  "sampleCycles =
     [\<lparr>idle = 0, seesLoading = False, unmountsInFlight = False,
       requests = [netFail, okAttempt]\<rparr>,
      \<lparr>idle = 300000, seesLoading = False, unmountsInFlight = False,
       requests = [netFail, netFail, netFail, netFail]\<rparr>]"

text \<open>The same in the other revision, where a refresh makes at most three requests.\<close>

definition sampleCycles_p0 :: "cycle list" where
  "sampleCycles_p0 =
     [\<lparr>idle = 0, seesLoading = False, unmountsInFlight = False,
       requests = [netFail, okAttempt]\<rparr>,
      \<lparr>idle = 120000, seesLoading = False, unmountsInFlight = False,
       requests = [netFail, netFail, netFail]\<rparr>]"

text \<open>A counter at ten calls, twenty seconds into its window.\<close>

definition fullWindow :: world where
  "fullWindow = initialWorld NoEntry (Rate \<lparr>timestamp = 1000, count = 10\<rparr>) 21000"












text \<open>Hooks at their first render, with empty storage.\<close>

definition freshHook :: world where
  "freshHook = initialWorld NoEntry NoRate 1000"

definition freshHook_p0 :: world where
  "freshHook_p0 = initialWorld_p0 NoEntry NoRate 1000"


text \<open>A response that resolves with status 429 and asks for seven seconds.\<close>

definition throttled :: response where
  "throttled = \<lparr>status = 429, retry_after = Some 7, data = []\<rparr>"

definition throttledAttempt :: attempt where
  "throttledAttempt = \<lparr>outcome = Resolved throttled, latency = 50, rnd = 0.5\<rparr>"

section \<open>Merging by id\<close>

lemma spread_eq: "spread (item::TickerItem) u = u"
  by (simp add: spread_def)

lemma map_id_mergeItems: "map item_id (mergeItems newItems prevItems) = map item_id prevItems"
  by (induction prevItems)
     (auto simp: mergeItems_def spread_def split: option.splits dest: find_Some_iff[THEN iffD1])

lemma find_id_Some: "find (\<lambda>n. item_id n = k) xs = Some u \<Longrightarrow> item_id u = k"
  by (induction xs) (auto split: if_splits)

lemma itemById_mergeItems:
  "itemById k (mergeItems newItems prevItems) =
     (case itemById k prevItems of
        None \<Rightarrow> None
      | Some item \<Rightarrow> (case itemById k newItems of Some u \<Rightarrow> Some u | None \<Rightarrow> Some item))"
proof (induction prevItems)
  case Nil
  show ?case by (simp add: itemById_def mergeItems_def)
next
  case (Cons p ps)
  let ?m = "case find (\<lambda>n. item_id n = item_id p) newItems of Some u \<Rightarrow> u | None \<Rightarrow> p"
  have step: "mergeItems newItems (p # ps) = ?m # mergeItems newItems ps"
    by (simp add: mergeItems_def spread_eq split: option.splits)
  show ?case
  proof (cases "item_id p = k")
    case True
    then show ?thesis
      by (auto simp: step itemById_def split: option.splits dest: find_id_Some)
  next
    case False
    have "item_id ?m \<noteq> k"
      using False by (auto split: option.splits dest: find_id_Some)
    then show ?thesis
      using False Cons.IH by (simp add: step itemById_def)
  qed
qed

lemma mergeItems_nth:
  "i < length prevItems \<Longrightarrow>
     mergeItems newItems prevItems ! i =
       (case itemById (item_id (prevItems ! i)) newItems of
          Some u \<Rightarrow> u
        | None \<Rightarrow> prevItems ! i)"
  by (simp add: mergeItems_def itemById_def spread_eq split: option.splits)

lemma itemById_None_iff: "itemById k its = None \<longleftrightarrow> k \<notin> item_id ` set its"
  by (auto simp: itemById_def find_None_iff)

section \<open>What the requests leave alone\<close>

lemma hookView_wait: "hookView (wait site d w) = hookView w"
  by (simp add: hookView_def wait_def)

lemma hookView_waitFrac: "hookView (waitFrac d w) = hookView w"
  by (simp add: hookView_def waitFrac_def)

lemma hookView_rateLimitCheck: "rateLimitCheck w = Inr w1 \<Longrightarrow> hookView w1 = hookView w"
  by (auto simp: rateLimitCheck_def hookView_def wait_def Let_def
           split: rate_slot.splits if_splits)

lemma hookView_rateLimitCheck_p0: "rateLimitCheck_p0 w = Inr w1 \<Longrightarrow> hookView w1 = hookView w"
  by (auto simp: rateLimitCheck_p0_def hookView_def wait_def Let_def
           split: rate_slot.splits if_splits)

lemma hookView_axiosCall: "axiosCall ids a w = (res, w1) \<Longrightarrow> hookView w1 = hookView w"
  by (auto simp: axiosCall_def hookView_def Let_def split: axios_result.splits)

lemma hookView_tryRequest: "tryRequest ids a w = (res, w1) \<Longrightarrow> hookView w1 = hookView w"
  by (auto simp: tryRequest_def hookView_wait split: sum.splits
           dest!: hookView_rateLimitCheck hookView_axiosCall)

lemma hookView_onRateLimited: "hookView (onRateLimited e w) = hookView w"
  by (simp add: onRateLimited_def hookView_def wait_def Let_def)

lemma hookView_fetchWithRetry:
  "fetchWithRetry ids script retries backoff w = Some (res, w', rest)
     \<Longrightarrow> hookView w' = hookView w"
proof (induction ids script retries backoff w rule: fetchWithRetry.induct)
  case (1 ids retries backoff w)
  then show ?case by simp
next
  case (2 ids a script retries backoff w)
  obtain r0 w1 where t: "tryRequest ids a w = (r0, w1)"
    by (cases "tryRequest ids a w")
  have v1: "hookView w1 = hookView w"
    using t by (rule hookView_tryRequest)
  show ?case
  proof (cases r0)
    case (Inr r)
    with "2.prems" t v1 show ?thesis by auto
  next
    case (Inl e)
    show ?thesis
    proof (cases "retries \<le> 0")
      case True
      with "2.prems" t Inl v1 show ?thesis
        by (auto simp: hookView_onRateLimited)
    next
      case False
      let ?w3 = "wait BackoffWait (backoff + \<lfloor>rnd a * 1000\<rfloor>) (onRateLimited e w1)"
      have again:
        "fetchWithRetry ids script (retries - 1) (min (backoff * 2) 30000) ?w3
           = Some (res, w', rest)"
        using "2.prems" t Inl False by (simp add: Let_def)
      have "hookView w' = hookView ?w3"
        using "2.IH"[OF t[symmetric] Inl refl False refl refl refl again] .
      then show ?thesis
        by (simp add: hookView_wait hookView_onRateLimited v1)
    qed
  qed
qed

lemma hookView_fetchWithRetry_p0:
  "fetchWithRetry_p0 ids script retries backoff w = Some (res, w', rest)
     \<Longrightarrow> hookView w' = hookView w"
proof (induction ids script retries backoff w rule: fetchWithRetry_p0.induct)
  case (1 ids retries backoff w)
  then show ?case by simp
next
  case (2 ids a script retries backoff w)
  show ?case
  proof (cases "rateLimitCheck_p0 w")
    case (Inl e)
    with "2.prems" show ?thesis by auto
  next
    case (Inr w1)
    have v1: "hookView w1 = hookView w"
      using Inr by (rule hookView_rateLimitCheck_p0)
    obtain r0 w2 where ax: "axiosCall ids a w1 = (r0, w2)"
      by (cases "axiosCall ids a w1")
    have v2: "hookView w2 = hookView w"
      using hookView_axiosCall[OF ax] v1 by simp
    show ?thesis
    proof (cases r0)
      case r: (Inr r)
      show ?thesis
      proof (cases "status r = 429")
        case True
        let ?w3 = "wait Cooldown (retryAfter_p0 r) w2"
        have again: "fetchWithRetry_p0 ids script retries (backoff * 2) ?w3 = Some (res, w', rest)"
          using "2.prems" Inr ax r True by simp
        have "hookView w' = hookView ?w3"
          using "2.IH"(2)[OF Inr ax[symmetric] r True again] .
        then show ?thesis by (simp add: hookView_wait v2)
      next
        case False
        with "2.prems" Inr ax r v2 show ?thesis by auto
      qed
    next
      case e: (Inl e)
      show ?thesis
      proof (cases "retries > 0")
        case True
        let ?w3 = "waitFrac (real_of_int backoff + rnd a * 1000) w2"
        have again:
          "fetchWithRetry_p0 ids script (retries - 1) (min (backoff * 2) 30000) ?w3
             = Some (res, w', rest)"
          using "2.prems" Inr ax e True by (simp add: Let_def)
        have "hookView w' = hookView ?w3"
          using "2.IH"(1)[OF Inr ax[symmetric] e True refl refl again] .
        then show ?thesis by (simp add: hookView_waitFrac v2)
      next
        case False
        with "2.prems" Inr ax e v2 show ?thesis by auto
      qed
    qed
  qed
qed

lemma hookView_fetchResponse:
  "fetchResponse script w = Some (res, w', rest) \<Longrightarrow> hookView w' = hookView w"
  unfolding fetchResponse_def
  by (auto split: option.splits sum.splits prod.splits dest!: hookView_fetchWithRetry)

lemma hookView_fetchResponse_p0:
  "fetchResponse_p0 script w = Some (res, w', rest) \<Longrightarrow> hookView w' = hookView w"
  unfolding fetchResponse_p0_def by (rule hookView_fetchWithRetry_p0)

lemma tickerItems_hookView: "hookView w' = hookView w \<Longrightarrow> tickerItems w' = tickerItems w"
  by (simp add: hookView_def)

section \<open>The requests return\<close>

text \<open>
  \<^verbatim>\<open>fetchWithRetry\<close> returns once the script holds more attempts than there are
  retries, after at most \<open>retries + 1\<close> of them; a refresh needs at most four. In
  part_000 this holds as long as no response resolves with status 429, which retries
  without a bound.
\<close>

lemma fetchWithRetry_returns:
  "nat retries < length script \<Longrightarrow>
     \<exists>res w' rest. fetchWithRetry ids script retries b w = Some (res, w', rest)
        \<and> length script \<le> length rest + nat retries + 1"
proof (induction script arbitrary: retries b w)
  case Nil
  then show ?case by simp
next
  case (Cons a script)
  obtain r0 w1 where t: "tryRequest ids a w = (r0, w1)"
    by (cases "tryRequest ids a w")
  show ?case
  proof (cases r0)
    case (Inr r)
    with t show ?thesis by simp
  next
    case (Inl e)
    show ?thesis
    proof (cases "retries \<le> 0")
      case True
      with t Inl show ?thesis by simp
    next
      case False
      let ?w3 = "wait BackoffWait (b + \<lfloor>rnd a * 1000\<rfloor>) (onRateLimited e w1)"
      have "nat (retries - 1) < length script" using Cons.prems False by simp
      then obtain res w' rest where
        r: "fetchWithRetry ids script (retries - 1) (min (b * 2) 30000) ?w3 = Some (res, w', rest)"
        and l: "length script \<le> length rest + nat (retries - 1) + 1"
        using Cons.IH by blast
      have "fetchWithRetry ids (a # script) retries b w = Some (res, w', rest)"
        using t Inl False r by (simp add: Let_def)
      moreover have "length (a # script) \<le> length rest + nat retries + 1"
        using l False by simp
      ultimately show ?thesis by blast
    qed
  qed
qed

lemma fetchResponse_returns:
  assumes "4 \<le> length script"
  shows "\<exists>res w' rest. fetchResponse script w = Some (res, w', rest)"
proof -
  have "nat MAX_RETRIES < length script" using assms by (simp add: MAX_RETRIES_def)
  then obtain res w1 rest where
    f: "fetchWithRetry ''bitcoin,ethereum,pax-gold'' script MAX_RETRIES BASE_BACKOFF w
          = Some (res, w1, rest)"
    and l: "length script \<le> length rest + nat MAX_RETRIES + 1"
    using fetchWithRetry_returns by blast
  show ?thesis
  proof (cases res)
    case (Inr r)
    with f show ?thesis by (simp add: fetchResponse_def)
  next
    case (Inl e)
    have "nat MAX_RETRIES < length rest" using l assms by (simp add: MAX_RETRIES_def)
    then obtain res' w2 rest' where
      "fetchWithRetry ''bitcoin,ethereum,gold'' rest MAX_RETRIES BASE_BACKOFF w1
         = Some (res', w2, rest')"
      using fetchWithRetry_returns by blast
    with f Inl show ?thesis by (simp add: fetchResponse_def)
  qed
qed

lemma fetchBtcPrice_returns:
  assumes "4 \<le> length script"
  shows "\<exists>w' rest. fetchBtcPrice s u script w = Some (w', rest)"
proof (cases "fetchBtcPrice_start s w")
  case (Returned w1)
  then show ?thesis by (simp add: fetchBtcPrice_def)
next
  case (Awaiting w1)
  obtain res w2 rest where "fetchResponse script w1 = Some (res, w2, rest)"
    using fetchResponse_returns[OF assms] by blast
  with Awaiting show ?thesis by (simp add: fetchBtcPrice_def)
qed

lemma runCycles_returns:
  "\<forall>c \<in> set cs. 4 \<le> length (requests c) \<Longrightarrow> \<exists>w'. runCycles cs w = Some w'"
proof (induction cs arbitrary: w)
  case Nil
  then show ?case by simp
next
  case (Cons c cs)
  have "4 \<le> length (requests c)" using Cons.prems by simp
  then obtain w1 rest where
    "fetchBtcPrice (seesLoading c) (unmountsInFlight c) (requests c)
       (w\<lparr>clock := clock w + max 0 (idle c)\<rparr>) = Some (w1, rest)"
    using fetchBtcPrice_returns by blast
  then have "runCycle c w = Some w1" by (simp add: runCycle_def)
  moreover obtain w' where "runCycles cs w1 = Some w'"
    using Cons.IH Cons.prems by auto
  ultimately show ?case by simp
qed

lemma fetchWithRetry_p0_returns:
  "nat retries < length script \<Longrightarrow> \<forall>a \<in> set script. \<not> resolves429 a \<Longrightarrow>
     \<exists>res w' rest. fetchWithRetry_p0 ids script retries b w = Some (res, w', rest)"
proof (induction script arbitrary: retries b w)
  case Nil
  then show ?case by simp
next
  case (Cons a script)
  show ?case
  proof (cases "rateLimitCheck_p0 w")
    case (Inl e)
    then show ?thesis by simp
  next
    case (Inr w1)
    obtain r0 w2 where ax: "axiosCall ids a w1 = (r0, w2)"
      by (cases "axiosCall ids a w1")
    show ?thesis
    proof (cases r0)
      case r: (Inr r)
      have "outcome a = Resolved r"
        using ax r by (auto simp: axiosCall_def Let_def split: axios_result.splits)
      then have "status r \<noteq> 429"
        using Cons.prems(2) by (simp add: resolves429_def)
      with Inr ax r show ?thesis by simp
    next
      case e: (Inl e)
      show ?thesis
      proof (cases "retries > 0")
        case False
        with Inr ax e show ?thesis by simp
      next
        case True
        let ?w3 = "waitFrac (real_of_int b + rnd a * 1000) w2"
        have "nat (retries - 1) < length script" using Cons.prems(1) True by simp
        moreover have "\<forall>a \<in> set script. \<not> resolves429 a" using Cons.prems(2) by simp
        ultimately obtain res w' rest where
          "fetchWithRetry_p0 ids script (retries - 1) (min (b * 2) 30000) ?w3
             = Some (res, w', rest)"
          using Cons.IH by blast
        with Inr ax e True show ?thesis by (simp add: Let_def)
      qed
    qed
  qed
qed

section \<open>The ids of the published items\<close>

lemma ids_catchBlock: "map item_id (tickerItems (catchBlock w)) = map item_id (tickerItems w)"
  by (simp add: catchBlock_def Let_def updateTickerItems_def map_id_mergeItems
           split: option.splits)

lemma ids_catchBlock_p0:
  "map item_id (tickerItems (catchBlock_p0 w)) = map item_id (tickerItems w)"
  by (simp add: catchBlock_p0_def Let_def updateTickerItems_def map_id_mergeItems
           split: option.splits)

lemma ids_start:
  "fetchBtcPrice_start s w = Returned w1 \<or> fetchBtcPrice_start s w = Awaiting w1
     \<Longrightarrow> map item_id (tickerItems w1) = map item_id (tickerItems w)"
  by (auto simp: fetchBtcPrice_start_def Let_def finallyBlock_def updateTickerItems_def
                 map_id_mergeItems
           split: if_splits option.splits)

lemma ids_start_p0:
  "fetchBtcPrice_start_p0 s w = Returned w1 \<or> fetchBtcPrice_start_p0 s w = Awaiting w1
     \<Longrightarrow> map item_id (tickerItems w1) = map item_id (tickerItems w)"
  by (auto simp: fetchBtcPrice_start_p0_def Let_def finallyBlock_def updateTickerItems_def
                 map_id_mergeItems
           split: if_splits option.splits)

lemma ids_finish:
  "map item_id (tickerItems (fetchBtcPrice_finish res w)) = map item_id (tickerItems w)"
  by (simp add: fetchBtcPrice_finish_def finallyBlock_def ids_catchBlock saveToCache_def
                updateTickerItems_def map_id_mergeItems split: sum.splits)

lemma ids_finish_p0:
  "map item_id (tickerItems (fetchBtcPrice_finish_p0 res w)) = map item_id (tickerItems w)"
  by (simp add: fetchBtcPrice_finish_p0_def finallyBlock_def ids_catchBlock_p0 saveToCache_def
                updateTickerItems_def map_id_mergeItems split: sum.splits)

lemma ids_fetchBtcPrice:
  assumes "fetchBtcPrice s u script w = Some (w', rest)"
  shows "map item_id (tickerItems w') = map item_id (tickerItems w)"
proof (cases "fetchBtcPrice_start s w")
  case (Returned w1)
  with assms have "w' = w1" by (simp add: fetchBtcPrice_def)
  with Returned show ?thesis using ids_start by blast
next
  case (Awaiting w1)
  then obtain res w2 where fr: "fetchResponse script w1 = Some (res, w2, rest)"
    and w': "w' = fetchBtcPrice_finish res (if u then cleanup w2 else w2)"
    using assms by (auto simp: fetchBtcPrice_def split: option.splits)
  have "tickerItems w2 = tickerItems w1"
    using hookView_fetchResponse[OF fr] by (rule tickerItems_hookView)
  moreover have "map item_id (tickerItems w1) = map item_id (tickerItems w)"
    using Awaiting ids_start by blast
  ultimately show ?thesis by (simp add: w' ids_finish cleanup_def)
qed

lemma ids_fetchBtcPrice_p0:
  assumes "fetchBtcPrice_p0 s u script w = Some (w', rest)"
  shows "map item_id (tickerItems w') = map item_id (tickerItems w)"
proof (cases "fetchBtcPrice_start_p0 s w")
  case (Returned w1)
  with assms have "w' = w1" by (simp add: fetchBtcPrice_p0_def)
  with Returned show ?thesis using ids_start_p0 by blast
next
  case (Awaiting w1)
  then obtain res w2 where fr: "fetchResponse_p0 script w1 = Some (res, w2, rest)"
    and w': "w' = fetchBtcPrice_finish_p0 res (if u then cleanup w2 else w2)"
    using assms by (auto simp: fetchBtcPrice_p0_def split: option.splits)
  have "tickerItems w2 = tickerItems w1"
    using hookView_fetchResponse_p0[OF fr] by (rule tickerItems_hookView)
  moreover have "map item_id (tickerItems w1) = map item_id (tickerItems w)"
    using Awaiting ids_start_p0 by blast
  ultimately show ?thesis by (simp add: w' ids_finish_p0 cleanup_def)
qed

lemma ids_runCycles:
  "runCycles cs w = Some w' \<Longrightarrow> map item_id (tickerItems w') = map item_id (tickerItems w)"
proof (induction cs arbitrary: w)
  case Nil
  then show ?case by simp
next
  case (Cons c cs)
  then obtain w1 where c: "runCycle c w = Some w1" and r: "runCycles cs w1 = Some w'"
    by (auto split: option.splits)
  from c obtain rest where
    "fetchBtcPrice (seesLoading c) (unmountsInFlight c) (requests c)
       (w\<lparr>clock := clock w + max 0 (idle c)\<rparr>) = Some (w1, rest)"
    by (auto simp: runCycle_def)
  then have "map item_id (tickerItems w1) = map item_id (tickerItems w)"
    by (auto dest: ids_fetchBtcPrice)
  with Cons.IH[OF r] show ?case by simp
qed

lemma ids_runCycles_p0:
  "runCycles_p0 cs w = Some w' \<Longrightarrow> map item_id (tickerItems w') = map item_id (tickerItems w)"
proof (induction cs arbitrary: w)
  case Nil
  then show ?case by simp
next
  case (Cons c cs)
  then obtain w1 where c: "runCycle_p0 c w = Some w1" and r: "runCycles_p0 cs w1 = Some w'"
    by (auto split: option.splits)
  from c obtain rest where
    "fetchBtcPrice_p0 (seesLoading c) (unmountsInFlight c) (requests c)
       (w\<lparr>clock := clock w + max 0 (idle c)\<rparr>) = Some (w1, rest)"
    by (auto simp: runCycle_p0_def)
  then have "map item_id (tickerItems w1) = map item_id (tickerItems w)"
    by (auto dest: ids_fetchBtcPrice_p0)
  with Cons.IH[OF r] show ?case by simp
qed

text \<open>
  Claim C6. A merge keeps the sequence of ids: the item at each position is replaced by
  the batch's item of the same id when there is one, and is kept as it is otherwise.
  So over any sequence of refresh cycles, successful or failed, unmounted in flight or
  not, the ids of the published items stay those of the initial items, in both revisions.
\<close>

theorem published_ids_constant:
  "map item_id (mergeItems newItems prevItems) = map item_id prevItems
   \<and> (\<forall>i < length prevItems.
         mergeItems newItems prevItems ! i =
           (case itemById (item_id (prevItems ! i)) newItems of
              Some u \<Rightarrow> u
            | None \<Rightarrow> prevItems ! i))
   \<and> (runCycles cs w = Some w' \<longrightarrow>
         map item_id (tickerItems w') = map item_id (tickerItems w))
   \<and> (runCycles cs (initialWorld c r t) = Some v \<longrightarrow>
         map item_id (tickerItems v) = [''btc-usd'', ''btc-eur'', ''btc-eth'', ''gold-usd''])
   \<and> (runCycles_p0 cs w = Some w'' \<longrightarrow>
         map item_id (tickerItems w'') = map item_id (tickerItems w))
   \<and> (runCycles_p0 cs (initialWorld_p0 c r t) = Some v' \<longrightarrow>
         map item_id (tickerItems v') = [''btc-usd'', ''btc-eur'', ''btc-eth'', ''btc-gold''])"
proof -
  have init: "map item_id (tickerItems (initialWorld c r t))
                = [''btc-usd'', ''btc-eur'', ''btc-eth'', ''gold-usd'']"
    by (simp add: initialWorld_def initialItems_def)
  have init_p0: "map item_id (tickerItems (initialWorld_p0 c r t))
                = [''btc-usd'', ''btc-eur'', ''btc-eth'', ''btc-gold'']"
    by (simp add: initialWorld_p0_def initialItems_p0_def)
  show ?thesis
    using ids_runCycles[of cs w w'] ids_runCycles[of cs "initialWorld c r t" v]
          ids_runCycles_p0[of cs w w''] ids_runCycles_p0[of cs "initialWorld_p0 c r t" v']
    by (simp add: map_id_mergeItems mergeItems_nth init init_p0)
qed

theorem published_ids_constant_witness:
  "runCycles sampleCycles (initialWorld NoEntry NoRate 1000) \<noteq> None
   \<and> map item_id (tickerItems (the (runCycles sampleCycles (initialWorld NoEntry NoRate 1000))))
       = [''btc-usd'', ''btc-eur'', ''btc-eth'', ''gold-usd'']
   \<and> runCycles_p0 sampleCycles_p0 (initialWorld_p0 NoEntry NoRate 1000) \<noteq> None
   \<and> map item_id
        (tickerItems (the (runCycles_p0 sampleCycles_p0 (initialWorld_p0 NoEntry NoRate 1000))))
       = [''btc-usd'', ''btc-eur'', ''btc-eth'', ''btc-gold'']
   \<and> (1::nat) < length initialItems
   \<and> mergeItems [] initialItems ! 1 = initialItems ! 1"
proof -
  have run: "runCycles sampleCycles (initialWorld NoEntry NoRate 1000) \<noteq> None"
    by code_simp
  have run_p0: "runCycles_p0 sampleCycles_p0 (initialWorld_p0 NoEntry NoRate 1000) \<noteq> None"
    by code_simp
  have len: "(1::nat) < length initialItems"
    by (simp add: initialItems_def)
  show ?thesis
    using run run_p0 len
      published_ids_constant[where cs = sampleCycles and c = NoEntry and r = NoRate
        and t = 1000 and newItems = "[]" and prevItems = initialItems
        and v = "the (runCycles sampleCycles (initialWorld NoEntry NoRate 1000))"]
      published_ids_constant[where cs = sampleCycles_p0 and c = NoEntry and r = NoRate
        and t = 1000
        and v' = "the (runCycles_p0 sampleCycles_p0 (initialWorld_p0 NoEntry NoRate 1000))"]
    by (auto simp: itemById_def)
qed

section \<open>The rate limiter\<close>

text \<open>
  Claim C8. With the counter at the ceiling (5 calls, and 10 in the other revision) and
  its window still open, the check asks for a wait of the remaining window time plus one
  second (of exactly the remaining time in the other revision), which is at least the
  remaining time, and then stores a fresh window, started at the time after the wait,
  whose count is 1; the request follows.
\<close>

theorem rate_limit_ceiling_wait:
  assumes "rateLimit w = Rate r"
      and "clock w - timestamp r \<le> RATE_LIMIT_WINDOW"
  shows "(5 \<le> count r \<longrightarrow>
            (\<exists>w'. rateLimitCheck w = Inr w'
               \<and> trace w' = trace w
                    @ [RateLimitWait (timestamp r + RATE_LIMIT_WINDOW - clock w + 1000)]
               \<and> timestamp r + RATE_LIMIT_WINDOW - clock w
                    \<le> timestamp r + RATE_LIMIT_WINDOW - clock w + 1000
               \<and> clock w' = timestamp r + RATE_LIMIT_WINDOW + 1000
               \<and> rateLimit w' = Rate \<lparr>timestamp = clock w', count = 1\<rparr>
               \<and> (\<forall>ids a. tryRequest ids a w = axiosCall ids a (wait SafetyDelay 500 w'))))
       \<and> (10 \<le> count r \<longrightarrow>
            (\<exists>w'. rateLimitCheck_p0 w = Inr w'
               \<and> trace w' = trace w @ [RateLimitWait (timestamp r + RATE_LIMIT_WINDOW - clock w)]
               \<and> clock w' = timestamp r + RATE_LIMIT_WINDOW
               \<and> rateLimit w' = Rate \<lparr>timestamp = clock w', count = 1\<rparr>))"
  using assms
  by (simp add: rateLimitCheck_def rateLimitCheck_p0_def tryRequest_def wait_def Let_def)

theorem rate_limit_ceiling_wait_witness:
  "rateLimit fullWindow = Rate \<lparr>timestamp = 1000, count = 10\<rparr>
   \<and> clock fullWindow - 1000 \<le> RATE_LIMIT_WINDOW
   \<and> (\<exists>w'. rateLimitCheck fullWindow = Inr w'
          \<and> trace w' = [RateLimitWait 41000]
          \<and> rateLimit w' = Rate \<lparr>timestamp = 62000, count = 1\<rparr>)
   \<and> (\<exists>w'. rateLimitCheck_p0 fullWindow = Inr w'
          \<and> trace w' = [RateLimitWait 40000]
          \<and> rateLimit w' = Rate \<lparr>timestamp = 61000, count = 1\<rparr>)"
proof -
  have slot: "rateLimit fullWindow = Rate \<lparr>timestamp = 1000, count = 10\<rparr>"
    by (simp add: fullWindow_def initialWorld_def)
  have op: "clock fullWindow - timestamp \<lparr>timestamp = 1000, count = 10\<rparr> \<le> RATE_LIMIT_WINDOW"
    by (simp add: fullWindow_def initialWorld_def RATE_LIMIT_WINDOW_def)
  have tr: "trace fullWindow = []" and ck: "clock fullWindow = 21000"
    by (simp_all add: fullWindow_def initialWorld_def)
  show ?thesis
    using rate_limit_ceiling_wait[OF slot op] slot op
    by (auto simp: tr ck RATE_LIMIT_WINDOW_def)
qed

section \<open>A complete response\<close>



lemma updatedItems_ids:
  "updatedItems coins = Inr its \<Longrightarrow>
     map item_id its = [''btc-usd'', ''btc-eur'', ''btc-eth'', ''gold-usd'']"
  by (auto simp: updatedItems_def Let_def split: option.splits)

lemma updatedItems_p0_ids:
  "updatedItems_p0 coins = Inr its \<Longrightarrow>
     map item_id its = [''btc-usd'', ''btc-eur'', ''btc-eth'', ''gold-usd'']"
  by (auto simp: updatedItems_p0_def Let_def split: option.splits)


lemma finish_p0_success:
  assumes "updatedItems_p0 (data r) = Inr its"
  shows "tickerItems (fetchBtcPrice_finish_p0 (Inr r) w) = mergeItems its (tickerItems w)"
    and "cache (fetchBtcPrice_finish_p0 (Inr r) w) = Entry \<lparr>items = map json_item its, lastUpdated = clock w\<rparr>"
    and "lastUpdatedState (fetchBtcPrice_finish_p0 (Inr r) w) = Some (clock w)"
  using assms
  by (simp_all add: fetchBtcPrice_finish_p0_def finallyBlock_def saveToCache_def updateTickerItems_def)

lemma itemById_map_json:
  "itemById k (map json_item its) = map_option json_item (itemById k its)"
  by (induction its) (auto simp: itemById_def json_item_def)


lemma itemById_absent: "k \<notin> set (map item_id its) \<Longrightarrow> itemById k its = None"
  by (simp add: itemById_None_iff)

lemma itemById_merge_absent:
  "itemById k newItems = None \<Longrightarrow> itemById k (mergeItems newItems prevItems) = itemById k prevItems"
  by (simp add: itemById_mergeItems split: option.splits)













section \<open>The freshness of the cache\<close>

lemma getCachedData_Some:
  "getCachedData w = Some cd \<longleftrightarrow> cache w = Entry cd \<and> clock w - lastUpdated cd < CACHE_DURATION"
  by (auto simp: getCachedData_def split: cache_slot.splits)

lemma getCachedData_p0_Some:
  "getCachedData_p0 w = Some cd \<longleftrightarrow> cache w = Entry cd \<and> clock w - lastUpdated cd < CACHE_DURATION_p0"
  by (auto simp: getCachedData_p0_def split: cache_slot.splits)

lemma getCachedData_None:
  "getCachedData w = None \<longleftrightarrow> (\<forall>cd. cache w = Entry cd \<longrightarrow> CACHE_DURATION \<le> clock w - lastUpdated cd)"
  by (auto simp: getCachedData_def split: cache_slot.splits)

lemma getCachedData_p0_None:
  "getCachedData_p0 w = None \<longleftrightarrow> (\<forall>cd. cache w = Entry cd \<longrightarrow> CACHE_DURATION_p0 \<le> clock w - lastUpdated cd)"
  by (auto simp: getCachedData_p0_def split: cache_slot.splits)

lemma getCachedData_error [simp]: "getCachedData (w\<lparr>error := e\<rparr>) = getCachedData w"
  by (simp add: getCachedData_def split: cache_slot.splits)

lemma getCachedData_p0_error [simp]: "getCachedData_p0 (w\<lparr>error := e\<rparr>) = getCachedData_p0 w"
  by (simp add: getCachedData_p0_def split: cache_slot.splits)



section \<open>The gold item of part_000\<close>

lemma updatedItems_p0_no_btc_gold:
  "updatedItems_p0 coins = Inr its \<Longrightarrow> itemById ''btc-gold'' its = None"
  by (rule itemById_absent) (simp add: updatedItems_p0_ids)

lemma goldKept_cached:
  assumes "goldKept w" and "getCachedData_p0 w = Some cd"
  shows "itemById ''btc-gold'' (mergeItems (items cd) (tickerItems w)) = Some goldPlaceholder"
proof -
  have "cache w = Entry cd" using assms(2) by (simp add: getCachedData_p0_Some)
  then have "itemById ''btc-gold'' (items cd) = None"
    using assms(1) by (simp add: goldKept_def noBtcGold_def)
  then show ?thesis using assms(1) by (simp add: itemById_merge_absent goldKept_def)
qed

lemma goldKept_start_p0:
  assumes "goldKept w"
      and "fetchBtcPrice_start_p0 s w = Returned w1 \<or> fetchBtcPrice_start_p0 s w = Awaiting w1"
  shows "goldKept w1"
proof (cases "getCachedData_p0 w")
  case None
  with assms show ?thesis
    by (auto simp: fetchBtcPrice_start_p0_def goldKept_def split: if_splits)
next
  case (Some cd)
  have m: "itemById ''btc-gold'' (mergeItems (items cd) (tickerItems w)) = Some goldPlaceholder"
    using goldKept_cached[OF assms(1) Some] .
  have c: "noBtcGold (cache w)" using assms(1) by (simp add: goldKept_def)
  show ?thesis
    using assms Some m c
    by (auto simp: fetchBtcPrice_start_p0_def goldKept_def Let_def finallyBlock_def
                   updateTickerItems_def split: if_splits)
qed

lemma goldKept_catchBlock_p0: "goldKept w \<Longrightarrow> goldKept (catchBlock_p0 w)"
proof (cases "getCachedData_p0 w")
  case None
  assume "goldKept w"
  with None show ?thesis
    by (simp add: catchBlock_p0_def goldKept_def Let_def)
next
  case (Some cd)
  assume g: "goldKept w"
  have m: "itemById ''btc-gold'' (mergeItems (items cd) (tickerItems w)) = Some goldPlaceholder"
    using goldKept_cached[OF g Some] .
  have c: "noBtcGold (cache w)" using g by (simp add: goldKept_def)
  show ?thesis
    using Some m c
    by (simp add: catchBlock_p0_def goldKept_def Let_def updateTickerItems_def)
qed

lemma goldKept_finallyBlock: "goldKept (finallyBlock w) = goldKept w"
  by (simp add: finallyBlock_def goldKept_def)

lemma goldKept_finish_p0:
  assumes "goldKept w"
  shows "goldKept (fetchBtcPrice_finish_p0 res w)"
proof (cases res)
  case (Inl e)
  then show ?thesis
    using goldKept_catchBlock_p0[OF assms]
    by (simp add: fetchBtcPrice_finish_p0_def goldKept_finallyBlock)
next
  case (Inr r)
  show ?thesis
  proof (cases "updatedItems_p0 (data r)")
    case e: (Inl e)
    then show ?thesis
      using goldKept_catchBlock_p0[OF assms] Inr
      by (simp add: fetchBtcPrice_finish_p0_def goldKept_finallyBlock)
  next
    case its: (Inr its)
    have n: "itemById ''btc-gold'' its = None"
      using its by (rule updatedItems_p0_no_btc_gold)
    show ?thesis
      using assms
      by (simp add: Inr goldKept_def finish_p0_success[OF its] itemById_merge_absent[OF n]
            noBtcGold_def itemById_map_json n)
  qed
qed

lemma goldKept_hookView: "hookView w' = hookView w \<Longrightarrow> goldKept w' = goldKept w"
  by (simp add: hookView_def goldKept_def)

lemma goldKept_fetchBtcPrice_p0:
  assumes "goldKept w" and "fetchBtcPrice_p0 s u script w = Some (w', rest)"
  shows "goldKept w'"
proof (cases "fetchBtcPrice_start_p0 s w")
  case (Returned w1)
  with assms(2) have "w' = w1" by (simp add: fetchBtcPrice_p0_def)
  with Returned show ?thesis using goldKept_start_p0[OF assms(1)] by blast
next
  case (Awaiting w1)
  then obtain res w2 where fr: "fetchResponse_p0 script w1 = Some (res, w2, rest)"
    and w': "w' = fetchBtcPrice_finish_p0 res (if u then cleanup w2 else w2)"
    using assms(2) by (auto simp: fetchBtcPrice_p0_def split: option.splits)
  have "goldKept w1" using Awaiting goldKept_start_p0[OF assms(1)] by blast
  then have "goldKept w2"
    using goldKept_hookView[OF hookView_fetchResponse_p0[OF fr]] by simp
  then have "goldKept (if u then cleanup w2 else w2)"
    by (simp add: goldKept_def cleanup_def)
  then show ?thesis unfolding w' by (rule goldKept_finish_p0)
qed

lemma goldKept_runCycles_p0:
  "goldKept w \<Longrightarrow> runCycles_p0 cs w = Some w' \<Longrightarrow> goldKept w'"
proof (induction cs arbitrary: w)
  case Nil
  then show ?case by simp
next
  case (Cons c cs)
  then obtain w1 where c: "runCycle_p0 c w = Some w1" and r: "runCycles_p0 cs w1 = Some w'"
    by (auto split: option.splits)
  from c obtain rest where f:
    "fetchBtcPrice_p0 (seesLoading c) (unmountsInFlight c) (requests c)
       (w\<lparr>clock := clock w + max 0 (idle c)\<rparr>) = Some (w1, rest)"
    by (auto simp: runCycle_p0_def)
  have "goldKept (w\<lparr>clock := clock w + max 0 (idle c)\<rparr>)"
    using Cons.prems(1) by (simp add: goldKept_def)
  then have "goldKept w1" using f by (rule goldKept_fetchBtcPrice_p0)
  then show ?case using r by (rule Cons.IH)
qed

text \<open>
  Claim C10. In part_000 the initial sequence has the gold item under the id \<open>btc-gold\<close>,
  and every batch built from a response has the ids \<open>btc-usd\<close>, \<open>btc-eur\<close>, \<open>btc-eth\<close>
  and \<open>gold-usd\<close>. Starting from a cache that holds no item \<open>btc-gold\<close> (an empty one,
  or one that this code wrote), after any sequence of refresh cycles the published item
  \<open>btc-gold\<close> is still the initial one, with no price and no change, and no item
  \<open>gold-usd\<close> is published.
\<close>

theorem btc_gold_never_updated:
  assumes "noBtcGold c"
      and "runCycles_p0 cs (initialWorld_p0 c r t) = Some w'"
  shows "itemById ''btc-gold'' initialItems_p0 = Some goldPlaceholder
       \<and> (updatedItems_p0 coins = Inr its \<longrightarrow>
            map item_id its = [''btc-usd'', ''btc-eur'', ''btc-eth'', ''gold-usd''])
       \<and> itemById ''btc-gold'' (tickerItems w') = Some goldPlaceholder
       \<and> currentPrice goldPlaceholder = None \<and> priceChange24h goldPlaceholder = None
       \<and> itemById ''gold-usd'' (tickerItems w') = None"
proof -
  have i: "itemById ''btc-gold'' initialItems_p0 = Some goldPlaceholder"
    by (simp add: itemById_def initialItems_p0_def goldPlaceholder_def)
  have "goldKept (initialWorld_p0 c r t)"
    using assms(1) i by (simp add: goldKept_def initialWorld_p0_def)
  then have k: "goldKept w'" using assms(2) by (rule goldKept_runCycles_p0)
  have "map item_id (tickerItems w') = map item_id (tickerItems (initialWorld_p0 c r t))"
    using assms(2) by (rule ids_runCycles_p0)
  then have "''gold-usd'' \<notin> set (map item_id (tickerItems w'))"
    by (simp add: initialWorld_p0_def initialItems_p0_def)
  then have g: "itemById ''gold-usd'' (tickerItems w') = None"
    by (rule itemById_absent)
  show ?thesis
    using i k g updatedItems_p0_ids[of coins its]
    by (simp add: goldKept_def goldPlaceholder_def)
qed

theorem btc_gold_never_updated_witness:
  "noBtcGold NoEntry
   \<and> runCycles_p0 sampleCycles_p0 (initialWorld_p0 NoEntry NoRate 1000) \<noteq> None
   \<and> itemById ''btc-gold''
        (tickerItems (the (runCycles_p0 sampleCycles_p0 (initialWorld_p0 NoEntry NoRate 1000))))
       = Some goldPlaceholder
   \<and> (case cache (the (runCycles_p0 sampleCycles_p0 (initialWorld_p0 NoEntry NoRate 1000))) of
         Entry cd \<Rightarrow> map_option currentPrice (itemById ''gold-usd'' (items cd))
       | _ \<Rightarrow> None) = Some (Some (Num 82415))"
proof -
  let ?w = "the (runCycles_p0 sampleCycles_p0 (initialWorld_p0 NoEntry NoRate 1000))"
  have n: "noBtcGold NoEntry" by (simp add: noBtcGold_def)
  have run: "runCycles_p0 sampleCycles_p0 (initialWorld_p0 NoEntry NoRate 1000) \<noteq> None"
    by code_simp
  then have s: "runCycles_p0 sampleCycles_p0 (initialWorld_p0 NoEntry NoRate 1000) = Some ?w"
    by simp
  have g: "itemById ''btc-gold'' (tickerItems ?w) = Some goldPlaceholder"
    using btc_gold_never_updated[OF n s] by blast
  have q: "(case cache ?w of
         Entry cd \<Rightarrow> map_option currentPrice (itemById ''gold-usd'' (items cd))
       | _ \<Rightarrow> None) = Some (Some (Num 82415))"
    by code_simp
  from n run g q show ?thesis by (intro conjI)
qed

section \<open>Retries and backoff\<close>

lemma backoffWaits_append: "backoffWaits (xs @ ys) = backoffWaits xs @ backoffWaits ys"
  by (induction xs rule: backoffWaits.induct) simp_all

lemma backoffWaitsFrac_append:
  "backoffWaitsFrac (xs @ ys) = backoffWaitsFrac xs @ backoffWaitsFrac ys"
  by (induction xs rule: backoffWaitsFrac.induct) simp_all

lemma jitter_range:
  assumes "randomInRange a"
  shows "0 \<le> \<lfloor>rnd a * 1000\<rfloor>" and "\<lfloor>rnd a * 1000\<rfloor> < 1000"
    and "0 \<le> rnd a * 1000" and "rnd a * 1000 < 1000"
  using assms by (simp_all add: randomInRange_def floor_less_iff)

lemma doubled_cap:
  "min (min (b * 2) 30000 * 2 ^ k) 30000 = min (b * 2 ^ Suc k) (30000::int)"
proof (cases "b * 2 \<le> 30000")
  case True
  then show ?thesis by (simp add: mult.assoc)
next
  case False
  have one: "(1::int) \<le> 2 ^ k" by simp
  have b2: "30000 \<le> b * 2" using False by simp
  have "(30000::int) * 1 \<le> 30000 * 2 ^ k"
    by (rule mult_left_mono[OF one]) simp
  then have l: "min (30000 * 2 ^ k) (30000::int) = 30000" by simp
  have "(b * 2) * 1 \<le> (b * 2) * 2 ^ k"
    by (rule mult_left_mono[OF one]) (use b2 in linarith)
  then have "30000 \<le> (b * 2) * 2 ^ k" using b2 by linarith
  moreover have "b * 2 ^ Suc k = (b * 2) * 2 ^ k" by simp
  ultimately have r: "min (b * 2 ^ Suc k) (30000::int) = 30000" by simp
  have m: "min (b * 2) (30000::int) = 30000" using False by simp
  show ?thesis unfolding m l r ..
qed

lemma map_upt_Suc_shift: "map f [0..<Suc n] = f 0 # map (\<lambda>k. f (Suc k)) [0..<n]"
  by (simp add: map_upt_Suc del: upt_Suc)

lemma tryRequest_rejected:
  assumes "outcome a = Rejected s"
  shows "\<exists>e w1. tryRequest ids a w = (Inl e, w1)
           \<and> e = (if rateLimit w = BadRate then SyntaxError else AxiosError s)
           \<and> backoffWaits (trace w1) = backoffWaits (trace w)
           \<and> (rateLimit w1 = BadRate \<longleftrightarrow> rateLimit w = BadRate)"
  using assms
  by (auto simp: tryRequest_def rateLimitCheck_def axiosCall_def wait_def Let_def
        backoffWaits_append split: rate_slot.splits)

lemma fetchWithRetry_fail_step:
  assumes "tryRequest ids a w = (Inl e, w1)" and "e \<noteq> AxiosError (Some 429)"
  shows "fetchWithRetry ids (a # rest) retries b w =
           (if retries \<le> 0 then Some (Inl e, w1, rest)
            else fetchWithRetry ids rest (retries - 1) (min (b * 2) 30000)
                   (wait BackoffWait (b + \<lfloor>rnd a * 1000\<rfloor>) w1))"
  using assms by (simp add: onRateLimited_def Let_def)

lemma retry_waits:
  assumes "\<forall>a \<in> set script. failsPlainly a"
      and "length script = nat retries + 1" and "0 \<le> retries" and "b \<le> 30000"
  shows "\<exists>e w'. fetchWithRetry ids script retries b w = Some (Inl e, w', [])
           \<and> e \<noteq> AxiosError (Some 429)
           \<and> backoffWaits (trace w') = backoffWaits (trace w)
                @ map (\<lambda>k. min (b * 2 ^ k) 30000 + \<lfloor>rnd (script ! k) * 1000\<rfloor>) [0..<nat retries]"
  using assms
proof (induction script arbitrary: retries b w)
  case Nil
  then show ?case by simp
next
  case (Cons a rest)
  obtain s where out: "outcome a = Rejected s" and s: "s \<noteq> Some 429"
    using Cons.prems(1) by (auto simp: failsPlainly_def split: axios_result.splits)
  obtain e w1 where t: "tryRequest ids a w = (Inl e, w1)"
    and e: "e = (if rateLimit w = BadRate then SyntaxError else AxiosError s)"
    and tr: "backoffWaits (trace w1) = backoffWaits (trace w)"
    using tryRequest_rejected[OF out] by blast
  have ne: "e \<noteq> AxiosError (Some 429)" using e s by simp
  show ?case
  proof (cases "retries \<le> 0")
    case True
    with Cons.prems have "rest = []" "retries = 0" by simp_all
    then show ?thesis
      using fetchWithRetry_fail_step[OF t ne, of rest retries b] ne tr by simp
  next
    case False
    let ?w3 = "wait BackoffWait (b + \<lfloor>rnd a * 1000\<rfloor>) w1"
    let ?b = "min (b * 2) 30000"
    have len: "length rest = nat (retries - 1) + 1" using Cons.prems(2) False by simp
    have all: "\<forall>a \<in> set rest. failsPlainly a" using Cons.prems(1) by simp
    obtain e' w' where r: "fetchWithRetry ids rest (retries - 1) ?b ?w3 = Some (Inl e', w', [])"
      and e': "e' \<noteq> AxiosError (Some 429)"
      and tr': "backoffWaits (trace w') = backoffWaits (trace ?w3)
                @ map (\<lambda>k. min (?b * 2 ^ k) 30000 + \<lfloor>rnd (rest ! k) * 1000\<rfloor>) [0..<nat (retries - 1)]"
      using Cons.IH[OF all len, of ?b ?w3] False by auto
    have w3: "backoffWaits (trace ?w3) = backoffWaits (trace w) @ [b + \<lfloor>rnd a * 1000\<rfloor>]"
      by (simp add: wait_def backoffWaits_append tr)
    have n: "nat retries = Suc (nat (retries - 1))" using False by simp
    have "fetchWithRetry ids (a # rest) retries b w = Some (Inl e', w', [])"
      using fetchWithRetry_fail_step[OF t ne, of rest retries b] False r by simp
    moreover have "backoffWaits (trace w') = backoffWaits (trace w)
                @ map (\<lambda>k. min (b * 2 ^ k) 30000 + \<lfloor>rnd ((a # rest) ! k) * 1000\<rfloor>) [0..<nat retries]"
      unfolding tr' w3 n map_upt_Suc_shift
      using Cons.prems(4) by (simp add: doubled_cap)
    ultimately show ?thesis using e' by blast
  qed
qed

lemma rateLimitCheck_p0_ok:
  assumes "rateLimit w \<noteq> BadRate"
  shows "\<exists>w1. rateLimitCheck_p0 w = Inr w1 \<and> rateLimit w1 \<noteq> BadRate
           \<and> backoffWaitsFrac (trace w1) = backoffWaitsFrac (trace w)"
  using assms
  by (auto simp: rateLimitCheck_p0_def wait_def Let_def backoffWaitsFrac_append
           split: rate_slot.splits)

lemma axiosCall_rejected:
  assumes "outcome a = Rejected s"
  shows "\<exists>w2. axiosCall ids a w = (Inl (AxiosError s), w2) \<and> rateLimit w2 = rateLimit w
           \<and> backoffWaitsFrac (trace w2) = backoffWaitsFrac (trace w)"
  using assms by (simp add: axiosCall_def Let_def backoffWaitsFrac_append)

lemma fetchWithRetry_p0_fail_step:
  assumes "rateLimitCheck_p0 w = Inr w1" and "axiosCall ids a w1 = (Inl e, w2)"
  shows "fetchWithRetry_p0 ids (a # rest) retries b w =
           (if retries > 0
            then fetchWithRetry_p0 ids rest (retries - 1) (min (b * 2) 30000)
                   (waitFrac (real_of_int b + rnd a * 1000) w2)
            else Some (Inl e, w2, rest))"
  using assms by (simp add: Let_def)

lemma retry_waits_p0:
  assumes "\<forall>a \<in> set script. failsPlainly a"
      and "length script = nat retries + 1" and "0 \<le> retries" and "b \<le> 30000"
      and "rateLimit w \<noteq> BadRate"
  shows "\<exists>e w'. fetchWithRetry_p0 ids script retries b w = Some (Inl e, w', [])
           \<and> e \<noteq> AxiosError (Some 429)
           \<and> backoffWaitsFrac (trace w') = backoffWaitsFrac (trace w)
                @ map (\<lambda>k. real_of_int (min (b * 2 ^ k) 30000) + rnd (script ! k) * 1000)
                      [0..<nat retries]"
  using assms
proof (induction script arbitrary: retries b w)
  case Nil
  then show ?case by simp
next
  case (Cons a rest)
  obtain s where out: "outcome a = Rejected s" and s: "s \<noteq> Some 429"
    using Cons.prems(1) by (auto simp: failsPlainly_def split: axios_result.splits)
  obtain w1 where c: "rateLimitCheck_p0 w = Inr w1" and ok1: "rateLimit w1 \<noteq> BadRate"
    and tr1: "backoffWaitsFrac (trace w1) = backoffWaitsFrac (trace w)"
    using rateLimitCheck_p0_ok[OF Cons.prems(5)] by blast
  obtain w2 where ax: "axiosCall ids a w1 = (Inl (AxiosError s), w2)"
    and ok2: "rateLimit w2 = rateLimit w1"
    and tr2: "backoffWaitsFrac (trace w2) = backoffWaitsFrac (trace w1)"
    using axiosCall_rejected[OF out] by blast
  have ne: "AxiosError s \<noteq> AxiosError (Some 429)" using s by simp
  show ?case
  proof (cases "retries > 0")
    case False
    with Cons.prems have "rest = []" "retries = 0" by simp_all
    then show ?thesis
      using fetchWithRetry_p0_fail_step[OF c ax, of rest retries b] ne tr1 tr2 by simp
  next
    case True
    let ?w3 = "waitFrac (real_of_int b + rnd a * 1000) w2"
    let ?b = "min (b * 2) 30000"
    have len: "length rest = nat (retries - 1) + 1" using Cons.prems(2) True by simp
    have all: "\<forall>a \<in> set rest. failsPlainly a" using Cons.prems(1) by simp
    have ok3: "rateLimit ?w3 \<noteq> BadRate" using ok1 ok2 by (simp add: waitFrac_def)
    obtain e' w' where r: "fetchWithRetry_p0 ids rest (retries - 1) ?b ?w3 = Some (Inl e', w', [])"
      and e': "e' \<noteq> AxiosError (Some 429)"
      and tr': "backoffWaitsFrac (trace w') = backoffWaitsFrac (trace ?w3)
                @ map (\<lambda>k. real_of_int (min (?b * 2 ^ k) 30000) + rnd (rest ! k) * 1000)
                      [0..<nat (retries - 1)]"
      using Cons.IH[OF all len _ _ ok3, of ?b] True by auto
    have w3: "backoffWaitsFrac (trace ?w3)
                = backoffWaitsFrac (trace w) @ [real_of_int b + rnd a * 1000]"
      by (simp add: waitFrac_def backoffWaitsFrac_append tr1 tr2)
    have n: "nat retries = Suc (nat (retries - 1))" using True by simp
    have "fetchWithRetry_p0 ids (a # rest) retries b w = Some (Inl e', w', [])"
      using fetchWithRetry_p0_fail_step[OF c ax, of rest retries b] True r by simp
    moreover have "backoffWaitsFrac (trace w') = backoffWaitsFrac (trace w)
                @ map (\<lambda>k. real_of_int (min (b * 2 ^ k) 30000) + rnd ((a # rest) ! k) * 1000)
                      [0..<nat retries]"
      unfolding tr' w3 n map_upt_Suc_shift
      using Cons.prems(4) by (simp add: doubled_cap)
    ultimately show ?thesis using e' by blast
  qed
qed

text \<open>
  Claim C7. Let every attempt of a call of \<^verbatim>\<open>fetchWithRetry\<close> with \<open>retries\<close> retries
  and a base backoff \<open>b\<close> of at most the cap 30000 be rejected with something else than
  a 429 response. Then the wait requested before the \<open>k\<close>-th retry (counted from 1) is
  \<open>min (b * 2 ^ (k - 1)) 30000\<close> plus that attempt's jitter, there are exactly \<open>retries\<close>
  such waits, and the call fails. The jitter is \<open>floor (random * 1000)\<close>, at least 0 and
  below 1000 (in part_000 \<open>random * 1000\<close>, not rounded, in the same range; there the
  request must have been issued, that is the stored counter is parsable). When no retries
  remain, the call fails with the error of that attempt, in the state that the attempt
  left: no wait is requested.
\<close>

theorem backoff_schedule:
  assumes "\<forall>a \<in> set script. failsPlainly a \<and> randomInRange a"
      and "0 \<le> retries" and "length script = nat retries + 1"
      and "b \<le> 30000"
  shows "(\<exists>e w'. fetchWithRetry ids script retries b w = Some (Inl e, w', [])
            \<and> e \<noteq> AxiosError (Some 429)
            \<and> backoffWaits (trace w') = backoffWaits (trace w)
                 @ map (\<lambda>k. min (b * 2 ^ k) 30000 + \<lfloor>rnd (script ! k) * 1000\<rfloor>)
                       [0..<nat retries])
       \<and> (rateLimit w \<noteq> BadRate \<longrightarrow>
            (\<exists>e w'. fetchWithRetry_p0 ids script retries b w = Some (Inl e, w', [])
               \<and> e \<noteq> AxiosError (Some 429)
               \<and> backoffWaitsFrac (trace w') = backoffWaitsFrac (trace w)
                    @ map (\<lambda>k. real_of_int (min (b * 2 ^ k) 30000) + rnd (script ! k) * 1000)
                          [0..<nat retries]))
       \<and> (\<forall>k < length script.
             0 \<le> \<lfloor>rnd (script ! k) * 1000\<rfloor> \<and> \<lfloor>rnd (script ! k) * 1000\<rfloor> < 1000
             \<and> 0 \<le> rnd (script ! k) * 1000 \<and> rnd (script ! k) * 1000 < 1000)
       \<and> (\<forall>a rest e w1. retries \<le> 0 \<longrightarrow> tryRequest ids a w = (Inl e, w1) \<longrightarrow>
             e \<noteq> AxiosError (Some 429) \<longrightarrow>
             fetchWithRetry ids (a # rest) retries b w = Some (Inl e, w1, rest))
       \<and> (\<forall>a rest e w1 w2. retries \<le> 0 \<longrightarrow> rateLimitCheck_p0 w = Inr w1 \<longrightarrow>
             axiosCall ids a w1 = (Inl e, w2) \<longrightarrow>
             fetchWithRetry_p0 ids (a # rest) retries b w = Some (Inl e, w2, rest))"
proof -
  have all: "\<forall>a \<in> set script. failsPlainly a" using assms(1) by blast
  have A: "\<exists>e w'. fetchWithRetry ids script retries b w = Some (Inl e, w', [])
            \<and> e \<noteq> AxiosError (Some 429)
            \<and> backoffWaits (trace w') = backoffWaits (trace w)
                 @ map (\<lambda>k. min (b * 2 ^ k) 30000 + \<lfloor>rnd (script ! k) * 1000\<rfloor>)
                       [0..<nat retries]"
    using retry_waits[OF all assms(3,2,4)] .
  have B: "rateLimit w \<noteq> BadRate \<longrightarrow>
            (\<exists>e w'. fetchWithRetry_p0 ids script retries b w = Some (Inl e, w', [])
               \<and> e \<noteq> AxiosError (Some 429)
               \<and> backoffWaitsFrac (trace w') = backoffWaitsFrac (trace w)
                    @ map (\<lambda>k. real_of_int (min (b * 2 ^ k) 30000) + rnd (script ! k) * 1000)
                          [0..<nat retries])"
    using retry_waits_p0[OF all assms(3,2,4)] by blast
  have C: "\<forall>k < length script.
             0 \<le> \<lfloor>rnd (script ! k) * 1000\<rfloor> \<and> \<lfloor>rnd (script ! k) * 1000\<rfloor> < 1000
             \<and> 0 \<le> rnd (script ! k) * 1000 \<and> rnd (script ! k) * 1000 < 1000"
  proof (intro allI impI)
    fix k assume "k < length script"
    then have "randomInRange (script ! k)" using assms(1) by simp
    then show "0 \<le> \<lfloor>rnd (script ! k) * 1000\<rfloor> \<and> \<lfloor>rnd (script ! k) * 1000\<rfloor> < 1000
             \<and> 0 \<le> rnd (script ! k) * 1000 \<and> rnd (script ! k) * 1000 < 1000"
      using jitter_range by blast
  qed
  have D: "\<forall>a rest e w1. retries \<le> 0 \<longrightarrow> tryRequest ids a w = (Inl e, w1) \<longrightarrow>
             e \<noteq> AxiosError (Some 429) \<longrightarrow>
             fetchWithRetry ids (a # rest) retries b w = Some (Inl e, w1, rest)"
  proof (intro allI impI)
    fix a rest e w1
    assume r: "retries \<le> 0" and t: "tryRequest ids a w = (Inl e, w1)"
      and ne: "e \<noteq> AxiosError (Some 429)"
    show "fetchWithRetry ids (a # rest) retries b w = Some (Inl e, w1, rest)"
      unfolding fetchWithRetry_fail_step[OF t ne] using r by simp
  qed
  have E: "\<forall>a rest e w1 w2. retries \<le> 0 \<longrightarrow> rateLimitCheck_p0 w = Inr w1 \<longrightarrow>
             axiosCall ids a w1 = (Inl e, w2) \<longrightarrow>
             fetchWithRetry_p0 ids (a # rest) retries b w = Some (Inl e, w2, rest)"
  proof (intro allI impI)
    fix a rest e w1 w2
    assume r: "retries \<le> 0" and c: "rateLimitCheck_p0 w = Inr w1"
      and ax: "axiosCall ids a w1 = (Inl e, w2)"
    show "fetchWithRetry_p0 ids (a # rest) retries b w = Some (Inl e, w2, rest)"
      unfolding fetchWithRetry_p0_fail_step[OF c ax] using r by simp
  qed
  from A B C D E show ?thesis by (intro conjI)
qed

theorem backoff_schedule_witness:
  "failsPlainly netFail \<and> randomInRange netFail
   \<and> (\<exists>e w'. fetchWithRetry ''bitcoin'' [netFail, netFail, netFail] 2 BASE_BACKOFF freshHook
                 = Some (Inl e, w', [])
          \<and> backoffWaits (trace w') = [3250, 6250])
   \<and> (\<exists>e w'. fetchWithRetry_p0 ''bitcoin'' [netFail, netFail, netFail] 2 BASE_BACKOFF_p0 freshHook_p0
                 = Some (Inl e, w', [])
          \<and> backoffWaitsFrac (trace w') = [2250, 4250])"
proof -
  have h: "\<forall>a \<in> set [netFail, netFail, netFail]. failsPlainly a \<and> randomInRange a"
    by (simp add: failsPlainly_def randomInRange_def netFail_def)
  have l: "length [netFail, netFail, netFail] = nat 2 + 1" by simp
  have z: "(0::int) \<le> 2" by simp
  have b: "BASE_BACKOFF \<le> 30000" "BASE_BACKOFF_p0 \<le> 30000"
    by (simp_all add: BASE_BACKOFF_def BASE_BACKOFF_p0_def)
  have r: "rateLimit freshHook_p0 \<noteq> BadRate"
    by (simp add: freshHook_p0_def initialWorld_p0_def)
  have t: "trace freshHook = []" "trace freshHook_p0 = []"
    by (simp_all add: freshHook_def freshHook_p0_def initialWorld_def initialWorld_p0_def)
  have u: "[0..<nat 2] = [0, 1]" by (simp add: upt_rec)
  have m: "map (\<lambda>k. min (BASE_BACKOFF * 2 ^ k) 30000
                       + \<lfloor>rnd ([netFail, netFail, netFail] ! k) * 1000\<rfloor>) [0..<nat 2]
             = [3250, 6250]"
    unfolding u by (simp add: BASE_BACKOFF_def netFail_def)
  have m0: "map (\<lambda>k. real_of_int (min (BASE_BACKOFF_p0 * 2 ^ k) 30000)
                       + rnd ([netFail, netFail, netFail] ! k) * 1000) [0..<nat 2]
             = [2250, 4250]"
    unfolding u by (simp add: BASE_BACKOFF_p0_def netFail_def)
  have A: "\<exists>e w'. fetchWithRetry ''bitcoin'' [netFail, netFail, netFail] 2 BASE_BACKOFF freshHook
                 = Some (Inl e, w', [])
          \<and> backoffWaits (trace w') = [3250, 6250]"
    using backoff_schedule[OF h z l b(1), where ids = "''bitcoin''" and w = freshHook,
            THEN conjunct1]
    unfolding t m backoffWaits.simps append_Nil by blast
  have B: "\<exists>e w'. fetchWithRetry_p0 ''bitcoin'' [netFail, netFail, netFail] 2 BASE_BACKOFF_p0 freshHook_p0
                 = Some (Inl e, w', [])
          \<and> backoffWaitsFrac (trace w') = [2250, 4250]"
    using mp[OF backoff_schedule[OF h z l b(2), where ids = "''bitcoin''" and w = freshHook_p0,
                THEN conjunct2, THEN conjunct1] r]
    unfolding t m0 backoffWaitsFrac.simps append_Nil by blast
  have h1: "failsPlainly netFail" "randomInRange netFail"
    by (simp_all add: failsPlainly_def randomInRange_def netFail_def)
  from h1 A B show ?thesis by (intro conjI)
qed

text \<open>
  Claim C3. An attempt that is rejected with a 429 response waits the fixed cooldown of
  30000 ms and then sets the stored counter to count 0 at the current time; after that it
  follows the rule of every failed attempt: with no retries left the call fails with the
  429 error, and otherwise it waits backoff plus jitter and retries with one retry less
  and the backoff doubled up to the cap. In part_000 a rejection with 429 follows that
  rule with no cooldown and no reset of the counter; a response that resolves with
  status 429 waits the \<^verbatim>\<open>retry-after\<close> seconds (5 by default) and retries with the same
  number of retries and twice the backoff, and the counter is not reset.
\<close>

theorem rate_limited_attempt:
  assumes "outcome a = Rejected (Some 429)"
      and "rateLimitCheck w = Inr w1"
      and "rateLimitCheck_p0 w = Inr v1"
  shows "(let w2 = snd (axiosCall ids a (wait SafetyDelay 500 w1));
              w3 = wait Cooldown 30000 w2;
              w4 = w3\<lparr>rateLimit := Rate \<lparr>timestamp = clock w3, count = 0\<rparr>\<rparr>
          in tryRequest ids a w = (Inl (AxiosError (Some 429)), w2)
             \<and> (retries \<le> 0 \<longrightarrow>
                  fetchWithRetry ids (a # rest) retries b w
                    = Some (Inl (AxiosError (Some 429)), w4, rest))
             \<and> (0 < retries \<longrightarrow>
                  fetchWithRetry ids (a # rest) retries b w
                    = fetchWithRetry ids rest (retries - 1) (min (b * 2) 30000)
                        (wait BackoffWait (b + \<lfloor>rnd a * 1000\<rfloor>) w4)))
       \<and> (let v2 = snd (axiosCall ids a v1)
          in (retries \<le> 0 \<longrightarrow>
                fetchWithRetry_p0 ids (a # rest) retries b w
                  = Some (Inl (AxiosError (Some 429)), v2, rest))
             \<and> (0 < retries \<longrightarrow>
                  fetchWithRetry_p0 ids (a # rest) retries b w
                    = fetchWithRetry_p0 ids rest (retries - 1) (min (b * 2) 30000)
                        (waitFrac (real_of_int b + rnd a * 1000) v2))
             \<and> rateLimit v2 = rateLimit v1)
       \<and> (\<forall>a' r. outcome a' = Resolved r \<longrightarrow> status r = 429 \<longrightarrow>
             (let v2 = snd (axiosCall ids a' v1)
              in fetchWithRetry_p0 ids (a' # rest) retries b w
                   = fetchWithRetry_p0 ids rest retries (b * 2)
                       (wait Cooldown (retryAfter_p0 r) v2)
                 \<and> rateLimit (wait Cooldown (retryAfter_p0 r) v2) = rateLimit v1))"
proof -
  have A: "let w2 = snd (axiosCall ids a (wait SafetyDelay 500 w1));
              w3 = wait Cooldown 30000 w2;
              w4 = w3\<lparr>rateLimit := Rate \<lparr>timestamp = clock w3, count = 0\<rparr>\<rparr>
          in tryRequest ids a w = (Inl (AxiosError (Some 429)), w2)
             \<and> (retries \<le> 0 \<longrightarrow>
                  fetchWithRetry ids (a # rest) retries b w
                    = Some (Inl (AxiosError (Some 429)), w4, rest))
             \<and> (0 < retries \<longrightarrow>
                  fetchWithRetry ids (a # rest) retries b w
                    = fetchWithRetry ids rest (retries - 1) (min (b * 2) 30000)
                        (wait BackoffWait (b + \<lfloor>rnd a * 1000\<rfloor>) w4))"
    using assms(1,2)
    by (simp add: tryRequest_def axiosCall_def onRateLimited_def Let_def)
  have B: "let v2 = snd (axiosCall ids a v1)
          in (retries \<le> 0 \<longrightarrow>
                fetchWithRetry_p0 ids (a # rest) retries b w
                  = Some (Inl (AxiosError (Some 429)), v2, rest))
             \<and> (0 < retries \<longrightarrow>
                  fetchWithRetry_p0 ids (a # rest) retries b w
                    = fetchWithRetry_p0 ids rest (retries - 1) (min (b * 2) 30000)
                        (waitFrac (real_of_int b + rnd a * 1000) v2))
             \<and> rateLimit v2 = rateLimit v1"
    using assms(1,3)
    by (simp add: axiosCall_def Let_def)
  have C: "\<forall>a' r. outcome a' = Resolved r \<longrightarrow> status r = 429 \<longrightarrow>
             (let v2 = snd (axiosCall ids a' v1)
              in fetchWithRetry_p0 ids (a' # rest) retries b w
                   = fetchWithRetry_p0 ids rest retries (b * 2)
                       (wait Cooldown (retryAfter_p0 r) v2)
                 \<and> rateLimit (wait Cooldown (retryAfter_p0 r) v2) = rateLimit v1)"
    using assms(3)
    by (simp add: axiosCall_def Let_def wait_def)
  from A B C show ?thesis by (intro conjI)
qed

theorem rate_limited_attempt_witness:
  "outcome tooMany = Rejected (Some 429)
   \<and> rateLimitCheck freshHook \<noteq> Inl SyntaxError
   \<and> map_option fst (fetchWithRetry ''bitcoin'' [tooMany] 0 3000 freshHook)
       = Some (Inl (AxiosError (Some 429)))
   \<and> fetchWithRetry ''bitcoin'' [tooMany, okAttempt] 1 3000 freshHook
       = fetchWithRetry ''bitcoin'' [okAttempt] 0 6000
           (wait BackoffWait 3500
              ((wait Cooldown 30000 (snd (tryRequest ''bitcoin'' tooMany freshHook)))
                 \<lparr>rateLimit := Rate \<lparr>timestamp = 31550, count = 0\<rparr>\<rparr>))
   \<and> map_option fst (fetchWithRetry_p0 ''bitcoin'' [tooMany] 0 2000 freshHook_p0)
       = Some (Inl (AxiosError (Some 429)))
   \<and> fetchWithRetry_p0 ''bitcoin'' [throttledAttempt, okAttempt] 0 2000 freshHook_p0
       = fetchWithRetry_p0 ''bitcoin'' [okAttempt] 0 4000
           (wait Cooldown 7000 (snd (axiosCall ''bitcoin'' throttledAttempt
              (freshHook_p0\<lparr>rateLimit := Rate \<lparr>timestamp = 1000, count = 1\<rparr>\<rparr>))))"
proof -
  let ?w1 = "freshHook\<lparr>rateLimit := Rate \<lparr>timestamp = 1000, count = 1\<rparr>\<rparr>"
  let ?v1 = "freshHook_p0\<lparr>rateLimit := Rate \<lparr>timestamp = 1000, count = 1\<rparr>\<rparr>"
  have o: "outcome tooMany = Rejected (Some 429)" by (simp add: tooMany_def)
  have c: "rateLimitCheck freshHook = Inr ?w1"
    by (simp add: rateLimitCheck_def freshHook_def initialWorld_def)
  have c0: "rateLimitCheck_p0 freshHook = Inr ?w1"
    by (simp add: rateLimitCheck_p0_def freshHook_def initialWorld_def)
  have d: "rateLimitCheck freshHook_p0 = Inr ?v1"
    by (simp add: rateLimitCheck_def freshHook_p0_def initialWorld_p0_def)
  have d0: "rateLimitCheck_p0 freshHook_p0 = Inr ?v1"
    by (simp add: rateLimitCheck_p0_def freshHook_p0_def initialWorld_p0_def)
  have t: "tryRequest ''bitcoin'' tooMany freshHook
             = axiosCall ''bitcoin'' tooMany (wait SafetyDelay 500 ?w1)"
    by (simp add: tryRequest_def c)
  have k: "clock (wait Cooldown 30000 (snd (axiosCall ''bitcoin'' tooMany (wait SafetyDelay 500 ?w1))))
             = 31550"
    by (simp add: axiosCall_def wait_def tooMany_def freshHook_def initialWorld_def Let_def)
  have j: "\<lfloor>rnd tooMany * 1000\<rfloor> = 500" by (simp add: tooMany_def)
  have A: "map_option fst (fetchWithRetry ''bitcoin'' [tooMany] 0 3000 freshHook)
       = Some (Inl (AxiosError (Some 429)))"
    using rate_limited_attempt[OF o c c0, where ids = "''bitcoin''" and retries = 0 and rest = "[]" and b = 3000, THEN conjunct1]
    by (simp add: Let_def)
  have B: "fetchWithRetry ''bitcoin'' [tooMany, okAttempt] 1 3000 freshHook
       = fetchWithRetry ''bitcoin'' [okAttempt] 0 6000
           (wait BackoffWait 3500
              ((wait Cooldown 30000 (snd (tryRequest ''bitcoin'' tooMany freshHook)))
                 \<lparr>rateLimit := Rate \<lparr>timestamp = 31550, count = 0\<rparr>\<rparr>))"
    using rate_limited_attempt[OF o c c0, where ids = "''bitcoin''" and retries = 1 and rest = "[okAttempt]" and b = 3000, THEN conjunct1]
    by (simp add: Let_def t k j)
  have C: "map_option fst (fetchWithRetry_p0 ''bitcoin'' [tooMany] 0 2000 freshHook_p0)
       = Some (Inl (AxiosError (Some 429)))"
    using rate_limited_attempt[OF o d d0, where ids = "''bitcoin''" and retries = 0 and rest = "[]" and b = 2000, THEN conjunct2,
            THEN conjunct1]
    by (simp add: Let_def)
  have D: "fetchWithRetry_p0 ''bitcoin'' [throttledAttempt, okAttempt] 0 2000 freshHook_p0
       = fetchWithRetry_p0 ''bitcoin'' [okAttempt] 0 4000
           (wait Cooldown 7000 (snd (axiosCall ''bitcoin'' throttledAttempt ?v1)))"
    using rate_limited_attempt[OF o d d0, where ids = "''bitcoin''" and retries = 0 and rest = "[okAttempt]" and b = 2000, THEN conjunct2,
            THEN conjunct2, rule_format, of throttledAttempt throttled]
    by (simp add: Let_def throttledAttempt_def throttled_def retryAfter_p0_def)
  have e: "rateLimitCheck freshHook \<noteq> Inl SyntaxError" by (simp add: c)
  from o e A B C D show ?thesis by (intro conjI)
qed

text \<open>
  Against claim C3 as it is worded: with the default single retry, two 429 rejections make
  the call fail with the 429 error; and after one 429 rejection a network failure ends the
  call although a third attempt would have succeeded, so the 429 has used up the retry.
  In part_000, three 429 rejections make the call fail.
\<close>

theorem rate_limit_consumes_retry_counterexample:
  "map_option fst
     (fetchWithRetry ''bitcoin,ethereum,pax-gold'' [tooMany, tooMany] MAX_RETRIES BASE_BACKOFF freshHook)
     = Some (Inl (AxiosError (Some 429)))
   \<and> map_option fst
       (fetchWithRetry ''bitcoin,ethereum,pax-gold'' [tooMany, netFail, okAttempt] MAX_RETRIES
          BASE_BACKOFF freshHook)
     = Some (Inl (AxiosError None))
   \<and> map_option fst
       (fetchWithRetry_p0 ''bitcoin,ethereum,pax-gold'' [tooMany, tooMany, tooMany] MAX_RETRIES_p0
          BASE_BACKOFF_p0 freshHook_p0)
     = Some (Inl (AxiosError (Some 429)))"
  by code_simp

section \<open>A failed refresh\<close>














section \<open>A refresh that ends after the cleanup\<close>

lemma finish_unmounted_keeps_isLoading:
  "isLoading (fetchBtcPrice_finish res (cleanup w)) = isLoading w"
  by (simp add: fetchBtcPrice_finish_def finallyBlock_def cleanup_def catchBlock_def Let_def
        updateTickerItems_def saveToCache_def split: sum.splits option.splits)


end
